theory Spec2Isabelle
  imports Main "HOL-Library.Log_Nat"
begin

section \<open>Python values\<close>

text \<open>
  The scraper of \<^verbatim>\<open>spider_v2.py\<close> works on dynamically typed values decoded from JSON.
  A Python \<^verbatim>\<open>str\<close> is a sequence of Unicode code points, so it is modelled as a list of
  code points (\<open>pystr\<close>): indexing, slicing, \<^verbatim>\<open>find\<close> and \<^verbatim>\<open>in\<close> count code points.
  ASCII literals are written \<open>ustr ''...''\<close>.
\<close>

type_synonym pystr = "nat list"

definition ustr :: "string \<Rightarrow> pystr" where
  "ustr s = map of_char s"

text \<open>The exceptions the modelled code can meet.\<close>

datatype pyerr =
    KeyError | TypeError | IndexError | AttributeError | OverflowError
  | JSONDecodeError | UnicodeDecodeError | APIError | OSError | PlaywrightError

text \<open>
  A Python \<^verbatim>\<open>float\<close> is a finite binary64 number, given by its exact rational value, an
  infinity or a NaN.
\<close>

datatype pyfloat = Finite rat | PosInf | NegInf | NaN

text \<open>
  The values \<^verbatim>\<open>json.loads\<close> and \<^verbatim>\<open>response.json()\<close> produce: \<^verbatim>\<open>None\<close>, \<^verbatim>\<open>bool\<close>,
  \<^verbatim>\<open>int\<close> (unbounded), \<^verbatim>\<open>float\<close>, \<^verbatim>\<open>str\<close>, \<^verbatim>\<open>list\<close> and \<^verbatim>\<open>dict\<close> with string keys
  (an association list in insertion order; a lookup takes the first entry of a key).
\<close>

datatype json =
    JNull
  | JBool bool
  | JInt int
  | JFloat pyfloat
  | JStr pystr
  | JArr "json list"
  | JObj "(pystr \<times> json) list"

type_synonym pydict = "(pystr \<times> json) list"

text \<open>A subscript \<^verbatim>\<open>data[key]\<close> is taken with a string or an integer.\<close>

datatype pykey = KStr pystr | KInt int

text \<open>
  Sequence indexing: a negative index counts from the end, and an index out of range raises
  \<^verbatim>\<open>IndexError\<close>.
\<close>

definition py_index :: "'a list \<Rightarrow> int \<Rightarrow> pyerr + 'a" where
  "py_index xs i =
     (if 0 \<le> i \<and> i < int (length xs) then Inr (xs ! nat i)
      else if i < 0 \<and> - int (length xs) \<le> i then Inr (xs ! nat (i + int (length xs)))
      else Inl IndexError)"

text \<open>
  \<^verbatim>\<open>data[key]\<close>: a dict raises \<^verbatim>\<open>KeyError\<close> on a missing key (its keys are strings, so
  every integer is missing); a list takes integers and raises \<^verbatim>\<open>TypeError\<close> on a string;
  a string indexed by an integer gives the one-character string at that place;
  \<^verbatim>\<open>None\<close>, booleans and numbers are not subscriptable (\<^verbatim>\<open>TypeError\<close>).
\<close>

fun py_getitem :: "json \<Rightarrow> pykey \<Rightarrow> pyerr + json" where
  "py_getitem (JObj d) (KStr k) = (case map_of d k of Some v \<Rightarrow> Inr v | None \<Rightarrow> Inl KeyError)"
| "py_getitem (JObj d) (KInt i) = Inl KeyError"
| "py_getitem (JArr xs) (KInt i) = py_index xs i"
| "py_getitem (JArr xs) (KStr k) = Inl TypeError"
| "py_getitem (JStr s) (KInt i) =
     (case py_index s i of Inr c \<Rightarrow> Inr (JStr [c]) | Inl e \<Rightarrow> Inl e)"
| "py_getitem (JStr s) (KStr k) = Inl TypeError"
| "py_getitem JNull k = Inl TypeError"
| "py_getitem (JBool b) k = Inl TypeError"
| "py_getitem (JInt n) k = Inl TypeError"
| "py_getitem (JFloat x) k = Inl TypeError"

text \<open>Sequencing of computations that may raise.\<close>

definition bind_err :: "pyerr + 'a \<Rightarrow> ('a \<Rightarrow> pyerr + 'b) \<Rightarrow> pyerr + 'b" where
  "bind_err m f = (case m of Inl e \<Rightarrow> Inl e | Inr v \<Rightarrow> f v)"

section \<open>safe_get\<close>

text \<open>
  \<^verbatim>\<open>
  async def safe_get(data, *keys, default="Not available"):
      for key in keys:
          try:
              data = data[key]
          except (KeyError, TypeError, IndexError):
              return default
      return data
  \<close>
  The handler catches three exception classes; any other exception of a subscript would
  leave the function, which the model keeps as the \<open>Inl\<close> branch.
\<close>

definition safe_get_caught :: "pyerr \<Rightarrow> bool" where
  "safe_get_caught e = (e = KeyError \<or> e = TypeError \<or> e = IndexError)"

fun safe_get :: "json \<Rightarrow> pykey list \<Rightarrow> json \<Rightarrow> pyerr + json" where
  "safe_get data [] dflt = Inr data"
| "safe_get data (key # keys) dflt =
     (case py_getitem data key of
        Inr v \<Rightarrow> safe_get v keys dflt
      | Inl e \<Rightarrow> if safe_get_caught e then Inr dflt else Inl e)"

definition not_available :: json where
  "not_available = JStr (ustr ''Not available'')"

text \<open>The call without the keyword argument \<^verbatim>\<open>default\<close>.\<close>

definition safe_get_default :: "json \<Rightarrow> pykey list \<Rightarrow> pyerr + json" where
  "safe_get_default data keys = safe_get data keys not_available"

text \<open>
  The unguarded nested lookup \<^verbatim>\<open>data[k1][k2]...[kn]\<close>, which stops at the first subscript
  that raises: the reference \<open>safe_get\<close> is compared with.
\<close>

fun nested_lookup :: "json \<Rightarrow> pykey list \<Rightarrow> pyerr + json" where
  "nested_lookup data [] = Inr data"
| "nested_lookup data (key # keys) =
     (case py_getitem data key of Inr v \<Rightarrow> nested_lookup v keys | Inl e \<Rightarrow> Inl e)"

section \<open>The dedup key of a link\<close>

text \<open>
  \<^verbatim>\<open>
  def get_link_unique_key(link: str) -> str:
      return link.split('&', 1)[0]
  \<close>
  \<^verbatim>\<open>s.split(sep, 1)\<close> with a one-character separator returns \<^verbatim>\<open>[s]\<close> when the separator
  does not occur and \<^verbatim>\<open>[head, tail]\<close> otherwise, split at the first occurrence. The
  result list is given as the head and the optional tail.
\<close>

definition py_split1 :: "pystr \<Rightarrow> nat \<Rightarrow> pystr \<times> pystr option" where
  "py_split1 s sep =
     (takeWhile (\<lambda>c. c \<noteq> sep) s,
      case dropWhile (\<lambda>c. c \<noteq> sep) s of [] \<Rightarrow> None | _ # rest \<Rightarrow> Some rest)"

definition ampersand :: nat where
  "ampersand = 38"

definition get_link_unique_key :: "pystr \<Rightarrow> pystr" where
  "get_link_unique_key link = fst (py_split1 link ampersand)"


section \<open>Floating-point arithmetic\<close>

text \<open>
  Python's \<^verbatim>\<open>float\<close> arithmetic is IEEE 754 binary64 with round-to-nearest, ties to even:
  the result of an operation is the exact result rounded to 53 significant bits (to a
  multiple of \<open>2^-1074\<close> below the normal range). \<open>fl\<close> is that rounding on exact
  rationals, with the exponent unbounded above; the places where a result reaches
  \<open>2^1024\<close> are treated where they occur.
\<close>

definition pow2 :: "int \<Rightarrow> rat" where
  "pow2 e = (if 0 \<le> e then 2 ^ nat e else 1 / 2 ^ nat (- e))"

definition round_half_even :: "rat \<Rightarrow> int" where
  "round_half_even q =
     (let f = \<lfloor>q\<rfloor>; r = q - of_int f
      in if r < 1 / 2 then f
         else if 1 / 2 < r then f + 1
         else if even f then f else f + 1)"

text \<open>The exponent \<open>e\<close> with \<open>2^e \<le> q < 2^(e+1)\<close>, for \<open>q > 0\<close>.\<close>

definition floor_log2 :: "rat \<Rightarrow> int" where
  "floor_log2 q =
     (let d = bitlen (fst (quotient_of q)) - bitlen (snd (quotient_of q))
      in if pow2 d \<le> q then d else d - 1)"

definition fl :: "rat \<Rightarrow> rat" where
  "fl q =
     (if q = 0 then 0
      else let e = max (floor_log2 \<bar>q\<bar>) (- 1022);
               ulp = pow2 (e - 52)
           in sgn q * of_int (round_half_even (\<bar>q\<bar> / ulp)) * ulp)"

text \<open>
  An \<^verbatim>\<open>int\<close> operand of a float operation is converted first; the conversion rounds, and
  raises \<^verbatim>\<open>OverflowError\<close> when the rounded value is not a finite float.
\<close>

definition int_to_float :: "int \<Rightarrow> pyerr + rat" where
  "int_to_float n =
     (if 2 ^ 1024 \<le> \<bar>fl (of_int n)\<bar> then Inl OverflowError else Inr (fl (of_int n)))"

text \<open>\<^verbatim>\<open>str(n)\<close> of an integer: its decimal digits, with a minus sign when negative.\<close>

fun digits_of_nat :: "nat \<Rightarrow> pystr" where
  "digits_of_nat n =
     (if n < 10 then [48 + n] else digits_of_nat (n div 10) @ [48 + n mod 10])"

definition py_str_int :: "int \<Rightarrow> pystr" where
  "py_str_int i = (if i < 0 then 45 # digits_of_nat (nat (- i)) else digits_of_nat (nat i))"

text \<open>
  The format \<^verbatim>\<open>f"{x:.2f}"\<close> of a finite float \<open>x \<ge> 0\<close>: the exact value of \<open>x\<close> rounded
  to hundredths, ties to even, written with two decimals.
\<close>

definition format_2f :: "rat \<Rightarrow> pystr" where
  "format_2f x =
     (let h = round_half_even (x * 100)
      in py_str_int (h div 100) @ [46] @ digits_of_nat (nat (h mod 100 div 10))
           @ digits_of_nat (nat (h mod 10)))"

section \<open>Registration duration\<close>

text \<open>
  \<^verbatim>\<open>
  def format_registration_days(total_days: int) -> str:
      if not isinstance(total_days, int) or total_days <= 0:
          return 'Unknown'
      DAYS_IN_YEAR = 365.25
      DAYS_IN_MONTH = DAYS_IN_YEAR / 12  # Approx 30.44
      years = math.floor(total_days / DAYS_IN_YEAR)
      remaining_days = total_days - (years * DAYS_IN_YEAR)
      months = round(remaining_days / DAYS_IN_MONTH)
      if months == 12:
          years += 1
          months = 0
      if years > 0 and months > 0:
          return f"On Xianyu for {years} years and {months} months"
      elif years > 0 and months == 0:
          return f"On Xianyu for {years} years"
      elif years == 0 and months > 0:
          return f"On Xianyu for {months} months"
      else:
          return "On Xianyu for less than a month"
  \<close>
  The argument is whatever the detail payload holds under \<^verbatim>\<open>userRegDay\<close>. \<^verbatim>\<open>bool\<close> is a
  subclass of \<^verbatim>\<open>int\<close>, so \<^verbatim>\<open>isinstance(True, int)\<close> holds and \<^verbatim>\<open>True\<close> counts as 1.
\<close>

fun int_instance :: "json \<Rightarrow> int option" where
  "int_instance (JInt n) = Some n"
| "int_instance (JBool b) = Some (if b then 1 else 0)"
| "int_instance JNull = None"
| "int_instance (JFloat x) = None"
| "int_instance (JStr s) = None"
| "int_instance (JArr xs) = None"
| "int_instance (JObj d) = None"

definition DAYS_IN_YEAR :: rat where
  "DAYS_IN_YEAR = 1461 / 4"

definition DAYS_IN_MONTH :: rat where
  "DAYS_IN_MONTH = fl (DAYS_IN_YEAR / 12)"

text \<open>
  The years and the remaining days of a day count already converted to float. \<open>years\<close>
  is the floor of a float, hence converts back to float exactly. When the product
  \<^verbatim>\<open>years * DAYS_IN_YEAR\<close> overflows to \<^verbatim>\<open>inf\<close>, \<^verbatim>\<open>remaining_days\<close> and the quotient are
  \<^verbatim>\<open>-inf\<close> and \<^verbatim>\<open>round\<close> raises \<^verbatim>\<open>OverflowError\<close>.
\<close>

definition registration_years :: "rat \<Rightarrow> int" where
  "registration_years x = \<lfloor>fl (x / DAYS_IN_YEAR)\<rfloor>"

definition registration_remaining_days :: "rat \<Rightarrow> pyerr + rat" where
  "registration_remaining_days x =
     (let product = fl (of_int (registration_years x) * DAYS_IN_YEAR)
      in if 2 ^ 1024 \<le> product then Inl OverflowError else Inr (fl (x - product)))"

definition duration_phrase :: "int \<Rightarrow> int \<Rightarrow> pystr" where
  "duration_phrase years months =
     (if years > 0 \<and> months > 0 then
        ustr ''On Xianyu for '' @ py_str_int years @ ustr '' years and ''
          @ py_str_int months @ ustr '' months''
      else if years > 0 \<and> months = 0 then
        ustr ''On Xianyu for '' @ py_str_int years @ ustr '' years''
      else if years = 0 \<and> months > 0 then
        ustr ''On Xianyu for '' @ py_str_int months @ ustr '' months''
      else ustr ''On Xianyu for less than a month'')"

definition format_registration_days :: "json \<Rightarrow> pyerr + pystr" where
  "format_registration_days total_days =
     (case int_instance total_days of
        None \<Rightarrow> Inr (ustr ''Unknown'')
      | Some n \<Rightarrow>
          if n \<le> 0 then Inr (ustr ''Unknown'')
          else
            bind_err (int_to_float n) (\<lambda>x.
            bind_err (registration_remaining_days x) (\<lambda>remaining_days.
              let years = registration_years x;
                  months = round_half_even (fl (remaining_days / DAYS_IN_MONTH))
              in if months = 12 then Inr (duration_phrase (years + 1) 0)
                 else Inr (duration_phrase years months))))"

section \<open>Reputation from rating cards\<close>

text \<open>
  \<^verbatim>\<open>needle in hay\<close> for two strings: \<open>needle\<close> occurs in \<open>hay\<close> as a contiguous run.
\<close>

definition starts_with :: "pystr \<Rightarrow> pystr \<Rightarrow> bool" where
  "starts_with needle hay = (take (length needle) hay = needle)"

fun str_contains :: "pystr \<Rightarrow> pystr \<Rightarrow> bool" where
  "str_contains needle [] = (needle = [])"
| "str_contains needle (c # cs) = (starts_with needle (c # cs) \<or> str_contains needle cs)"

text \<open>
  \<^verbatim>\<open>needle in x\<close> for a string \<open>needle\<close> and any value \<open>x\<close>: a substring test on a string,
  membership of the string in a list, membership among the keys of a dict, and a
  \<^verbatim>\<open>TypeError\<close> on \<^verbatim>\<open>None\<close>, booleans and numbers, which are not iterable.
\<close>

fun py_in :: "pystr \<Rightarrow> json \<Rightarrow> pyerr + bool" where
  "py_in needle (JStr s) = Inr (str_contains needle s)"
| "py_in needle (JArr xs) = Inr (JStr needle \<in> set xs)"
| "py_in needle (JObj d) = Inr (needle \<in> fst ` set d)"
| "py_in needle JNull = Inl TypeError"
| "py_in needle (JBool b) = Inl TypeError"
| "py_in needle (JInt n) = Inl TypeError"
| "py_in needle (JFloat x) = Inl TypeError"

text \<open>\<^verbatim>\<open>a or b\<close> on booleans: \<open>b\<close> is evaluated only when \<open>a\<close> is false.\<close>

definition py_or :: "pyerr + bool \<Rightarrow> pyerr + bool \<Rightarrow> pyerr + bool" where
  "py_or a b = (case a of Inl e \<Rightarrow> Inl e | Inr True \<Rightarrow> Inr True | Inr False \<Rightarrow> b)"

text \<open>
  \<^verbatim>\<open>x == 1\<close>: true for the integer 1, for \<^verbatim>\<open>True\<close> and for the float 1.0, false for
  every other value.
\<close>

fun py_eq_one :: "json \<Rightarrow> bool" where
  "py_eq_one (JInt n) = (n = 1)"
| "py_eq_one (JBool b) = b"
| "py_eq_one (JFloat x) = (x = Finite 1)"
| "py_eq_one JNull = False"
| "py_eq_one (JStr s) = False"
| "py_eq_one (JArr xs) = False"
| "py_eq_one (JObj d) = False"

text \<open>The markers \<^verbatim>\<open>"\<close>U+5356 U+5BB6\<^verbatim>\<open>"\<close> (seller) and \<^verbatim>\<open>"\<close>U+4E70 U+5BB6\<^verbatim>\<open>"\<close> (buyer).\<close>

definition seller_marker :: pystr where
  "seller_marker = [0x5356, 0x5BB6]"

definition buyer_marker :: pystr where
  "buyer_marker = [0x4E70, 0x5BB6]"

text \<open>
  \<^verbatim>\<open>
  async def calculate_reputation_from_ratings(ratings_json: list) -> dict:
      seller_total = 0
      seller_positive = 0
      buyer_total = 0
      buyer_positive = 0
      for card in ratings_json:
          data = await safe_get(card, 'cardData', default={})
          role_tag = await safe_get(data, 'rateTagList', 0, 'text', default='')
          rate_type = await safe_get(data, 'rate') # 1=Positive, 0=Neutral, -1=Negative
          if "<seller marker>" in role_tag or "Seller" in role_tag:
              seller_total += 1
              if rate_type == 1:
                  seller_positive += 1
          elif "<buyer marker>" in role_tag or "Buyer" in role_tag:
              buyer_total += 1
              if rate_type == 1:
                  buyer_positive += 1
      seller_rate = f"{(seller_positive / seller_total * 100):.2f}%" if seller_total > 0 else "N/A"
      buyer_rate = f"{(buyer_positive / buyer_total * 100):.2f}%" if buyer_total > 0 else "N/A"
      return {
          "positive_reviews_as_seller": f"{seller_positive}/{seller_total}",
          "positive_rate_as_seller": seller_rate,
          "positive_reviews_as_buyer": f"{buyer_positive}/{buyer_total}",
          "positive_rate_as_buyer": buyer_rate
      }
  \<close>
\<close>

record tally =
  seller_total :: nat
  seller_positive :: nat
  buyer_total :: nat
  buyer_positive :: nat

definition card_role_tag :: "json \<Rightarrow> pyerr + json" where
  "card_role_tag crd =
     bind_err (safe_get crd [KStr (ustr ''cardData'')] (JObj [])) (\<lambda>data.
       safe_get data [KStr (ustr ''rateTagList''), KInt 0, KStr (ustr ''text'')] (JStr []))"

definition card_rate_type :: "json \<Rightarrow> pyerr + json" where
  "card_rate_type crd =
     bind_err (safe_get crd [KStr (ustr ''cardData'')] (JObj [])) (\<lambda>data.
       safe_get_default data [KStr (ustr ''rate'')])"

definition tally_card :: "json \<Rightarrow> tally \<Rightarrow> pyerr + tally" where
  "tally_card crd t =
     bind_err (card_role_tag crd) (\<lambda>role_tag.
     bind_err (card_rate_type crd) (\<lambda>rate_type.
     bind_err (py_or (py_in seller_marker role_tag) (py_in (ustr ''Seller'') role_tag)) (\<lambda>is_seller.
       if is_seller then
         Inr (t\<lparr>seller_total := seller_total t + 1,
                seller_positive := (if py_eq_one rate_type then seller_positive t + 1
                                    else seller_positive t)\<rparr>)
       else
         bind_err (py_or (py_in buyer_marker role_tag) (py_in (ustr ''Buyer'') role_tag)) (\<lambda>is_buyer.
           if is_buyer then
             Inr (t\<lparr>buyer_total := buyer_total t + 1,
                    buyer_positive := (if py_eq_one rate_type then buyer_positive t + 1
                                       else buyer_positive t)\<rparr>)
           else Inr t))))"

fun tally_cards :: "json list \<Rightarrow> tally \<Rightarrow> pyerr + tally" where
  "tally_cards [] t = Inr t"
| "tally_cards (crd # cards) t = bind_err (tally_card crd t) (tally_cards cards)"

text \<open>
  The rate string. \<^verbatim>\<open>positive / total\<close> is the correctly rounded quotient of two
  integers; the product with 100 is rounded again; \<^verbatim>\<open>:.2f\<close> formats that float.
\<close>

definition rate_text :: "nat \<Rightarrow> nat \<Rightarrow> pystr" where
  "rate_text pos tot =
     (if tot > 0
      then format_2f (fl (fl (of_nat pos / of_nat tot) * 100)) @ ustr ''%''
      else ustr ''N/A'')"

definition calculate_reputation_from_ratings :: "json list \<Rightarrow> pyerr + pydict" where
  "calculate_reputation_from_ratings ratings_json =
     bind_err (tally_cards ratings_json
                 \<lparr>seller_total = 0, seller_positive = 0, buyer_total = 0, buyer_positive = 0\<rparr>)
       (\<lambda>t. Inr
         [(ustr ''positive_reviews_as_seller'',
             JStr (py_str_int (int (seller_positive t)) @ ustr ''/''
                    @ py_str_int (int (seller_total t)))),
          (ustr ''positive_rate_as_seller'',
             JStr (rate_text (seller_positive t) (seller_total t))),
          (ustr ''positive_reviews_as_buyer'',
             JStr (py_str_int (int (buyer_positive t)) @ ustr ''/''
                    @ py_str_int (int (buyer_total t)))),
          (ustr ''positive_rate_as_buyer'',
             JStr (rate_text (buyer_positive t) (buyer_total t)))])"

text \<open>
  The reference the aggregation is compared with: a card is a seller card when its role
  tag contains a seller marker, and it is positive when its rate equals 1.
\<close>

definition role_tag_of :: "json \<Rightarrow> json" where
  "role_tag_of crd = (case card_role_tag crd of Inr v \<Rightarrow> v | Inl e \<Rightarrow> JStr [])"

definition rate_of :: "json \<Rightarrow> json" where
  "rate_of crd = (case card_rate_type crd of Inr v \<Rightarrow> v | Inl e \<Rightarrow> not_available)"

definition searchable :: "json \<Rightarrow> bool" where
  "searchable v = (case v of JStr s \<Rightarrow> True | JArr xs \<Rightarrow> True | JObj d \<Rightarrow> True
                   | JNull \<Rightarrow> False | JBool b \<Rightarrow> False | JInt n \<Rightarrow> False | JFloat x \<Rightarrow> False)"

definition has_marker :: "pystr \<Rightarrow> json \<Rightarrow> bool" where
  "has_marker m v = (py_in m v = Inr True)"

definition is_seller_card :: "json \<Rightarrow> bool" where
  "is_seller_card crd =
     (has_marker seller_marker (role_tag_of crd) \<or> has_marker (ustr ''Seller'') (role_tag_of crd))"

definition seller_cards :: "json list \<Rightarrow> nat" where
  "seller_cards cards = length (filter is_seller_card cards)"

definition positive_seller_cards :: "json list \<Rightarrow> nat" where
  "positive_seller_cards cards =
     length (filter (\<lambda>crd. is_seller_card crd \<and> py_eq_one (rate_of crd)) cards)"

text \<open>
  A rating card as the rating API delivers it, with the text of its first role tag and
  its rate: \<^verbatim>\<open>{"cardData": {"rateTagList": [{"text": tag}], "rate": rate}}\<close>.
\<close>

definition rating_card :: "json \<Rightarrow> json \<Rightarrow> json" where
  "rating_card tag rate =
     JObj [(ustr ''cardData'',
            JObj [(ustr ''rateTagList'', JArr [JObj [(ustr ''text'', tag)]]),
                  (ustr ''rate'', rate)])]"

definition is_buyer_card :: "json \<Rightarrow> bool" where
  "is_buyer_card c =
     (has_marker buyer_marker (role_tag_of c) \<or> has_marker (ustr ''Buyer'') (role_tag_of c))"

section \<open>Parsing the analysis response\<close>

text \<open>
  The tail of \<^verbatim>\<open>get_ai_analysis\<close>:
  \<^verbatim>\<open>
  try:
      json_start_index = ai_response_content.find('{')
      json_end_index = ai_response_content.rfind('}')
      if json_start_index != -1 and json_end_index != -1:
          clean_json_str = ai_response_content[json_start_index : json_end_index + 1]
          return json.loads(clean_json_str)
      else:
          return json.loads(ai_response_content)
  except json.JSONDecodeError as e:
      raise e
  \<close>
  \<^verbatim>\<open>json.loads\<close> belongs to the standard library; the model takes it as the parameter
  \<open>loads\<close>. \<^verbatim>\<open>find\<close> and \<^verbatim>\<open>rfind\<close> return \<open>None\<close> for Python's \<open>-1\<close>.
\<close>

definition lbrace :: nat where
  "lbrace = 123"

definition rbrace :: nat where
  "rbrace = 125"

fun py_find :: "nat \<Rightarrow> pystr \<Rightarrow> nat option" where
  "py_find c [] = None"
| "py_find c (x # xs) = (if x = c then Some 0 else map_option Suc (py_find c xs))"

definition py_rfind :: "nat \<Rightarrow> pystr \<Rightarrow> nat option" where
  "py_rfind c s = map_option (\<lambda>i. length s - 1 - i) (py_find c (rev s))"

text \<open>The slice \<^verbatim>\<open>s[i:j]\<close> for indices \<open>i, j \<ge> 0\<close>; it is empty when \<open>j \<le> i\<close>.\<close>

definition py_slice :: "pystr \<Rightarrow> nat \<Rightarrow> nat \<Rightarrow> pystr" where
  "py_slice s i j = take (j - i) (drop i s)"

text \<open>The text that is handed to \<^verbatim>\<open>json.loads\<close>.\<close>

definition extract_json_text :: "pystr \<Rightarrow> pystr" where
  "extract_json_text content =
     (case py_find lbrace content of
        None \<Rightarrow> content
      | Some i \<Rightarrow>
          (case py_rfind rbrace content of
             None \<Rightarrow> content
           | Some j \<Rightarrow> py_slice content i (j + 1)))"

definition parse_ai_response :: "(pystr \<Rightarrow> pyerr + json) \<Rightarrow> pystr \<Rightarrow> pyerr + json" where
  "parse_ai_response loads content = loads (extract_json_text content)"

text \<open>
  The reading "the first balanced \<^verbatim>\<open>{...}\<close> span", for comparison: from the first \<^verbatim>\<open>{\<close> to
  the \<^verbatim>\<open>}\<close> that closes it, counting nested braces.
\<close>

fun span_to_close :: "nat \<Rightarrow> pystr \<Rightarrow> pystr option" where
  "span_to_close depth [] = None"
| "span_to_close depth (c # cs) =
     (if c = rbrace \<and> depth = 0 then Some [c]
      else map_option ((#) c)
             (span_to_close (if c = lbrace then depth + 1
                             else if c = rbrace then depth - 1 else depth) cs))"

definition first_balanced_span :: "pystr \<Rightarrow> pystr option" where
  "first_balanced_span s =
     (case dropWhile (\<lambda>c. c \<noteq> lbrace) s of
        [] \<Rightarrow> None
      | c # cs \<Rightarrow> map_option ((#) c) (span_to_close 0 cs))"

section \<open>Effects\<close>

text \<open>
  The run is observed through the sequence of its effects: the delays
  (\<^verbatim>\<open>random_sleep(a, b)\<close> with its bounds, \<^verbatim>\<open>asyncio.sleep(n)\<close> with its seconds), the detail
  fetches, the attempts of a retried call, the call of \<^verbatim>\<open>send_ntfy_notification\<close>, the call
  of \<^verbatim>\<open>save_to_jsonl\<close> (with the record and whether the line was written) and the insertion
  of a key into \<^verbatim>\<open>processed_links\<close>.
\<close>

datatype event =
    RandomSleep rat rat
  | Sleep nat
  | DetailFetch pystr
  | Attempt nat
  | Notify
  | SaveCall json bool
  | MarkProcessed pystr

section \<open>The retry decorator\<close>

text \<open>
  \<^verbatim>\<open>
  def retry_on_failure(retries=3, delay=5):
      def decorator(func):
          @wraps(func)
          async def wrapper(*args, **kwargs):
              for i in range(retries):
                  try:
                      return await func(*args, **kwargs)
                  except (APIStatusError, HTTPError) as e:
                      ...  # logged
                  except json.JSONDecodeError as e:
                      ...  # logged
                  except Exception as e:
                      ...  # logged
                  if i < retries - 1:
                      await asyncio.sleep(delay)
              return None
          return wrapper
      return decorator
  \<close>
  \<open>func i\<close> is the outcome of the call made in iteration \<open>i\<close>. The wrapper's \<^verbatim>\<open>None\<close> is
  \<open>JNull\<close>. \<open>retry_loop\<close> runs the iterations \<open>i, i + 1, ...\<close>, \<open>k\<close> of them being left.
\<close>

fun retry_loop :: "nat \<Rightarrow> nat \<Rightarrow> (nat \<Rightarrow> pyerr + json) \<Rightarrow> nat \<Rightarrow> nat \<Rightarrow> json \<times> event list" where
  "retry_loop retries delay func i 0 = (JNull, [])"
| "retry_loop retries delay func i (Suc k) =
     (case func i of
        Inr v \<Rightarrow> (v, [Attempt i])
      | Inl e \<Rightarrow>
          (fst (retry_loop retries delay func (Suc i) k),
           Attempt i # (if i + 1 < retries then [Sleep delay] else [])
             @ snd (retry_loop retries delay func (Suc i) k)))"

definition retry_on_failure :: "nat \<Rightarrow> nat \<Rightarrow> (nat \<Rightarrow> pyerr + json) \<Rightarrow> json \<times> event list" where
  "retry_on_failure retries delay func = retry_loop retries delay func 0 retries"

section \<open>Truth values, dict access\<close>

text \<open>Python's truth value of an object.\<close>

fun truthy :: "json \<Rightarrow> bool" where
  "truthy JNull = False"
| "truthy (JBool b) = b"
| "truthy (JInt n) = (n \<noteq> 0)"
| "truthy (JFloat x) = (x \<noteq> Finite 0)"
| "truthy (JStr s) = (s \<noteq> [])"
| "truthy (JArr xs) = (xs \<noteq> [])"
| "truthy (JObj d) = (d \<noteq> [])"

text \<open>\<^verbatim>\<open>x.get(key, dflt)\<close>: only a dict has the method.\<close>

fun py_get :: "json \<Rightarrow> pystr \<Rightarrow> json \<Rightarrow> pyerr + json" where
  "py_get (JObj d) k dflt = Inr (case map_of d k of Some v \<Rightarrow> v | None \<Rightarrow> dflt)"
| "py_get JNull k dflt = Inl AttributeError"
| "py_get (JBool b) k dflt = Inl AttributeError"
| "py_get (JInt n) k dflt = Inl AttributeError"
| "py_get (JFloat x) k dflt = Inl AttributeError"
| "py_get (JStr s) k dflt = Inl AttributeError"
| "py_get (JArr xs) k dflt = Inl AttributeError"

text \<open>\<^verbatim>\<open>d[k] = v\<close>: an existing key keeps its place, a new key goes last.\<close>

fun dict_set :: "pydict \<Rightarrow> pystr \<Rightarrow> json \<Rightarrow> pydict" where
  "dict_set [] k v = [(k, v)]"
| "dict_set ((k', v') # d) k v = (if k' = k then (k, v) # d else (k', v') # dict_set d k v)"

text \<open>\<^verbatim>\<open>get_link_unique_key\<close> applied to any value: only a string has \<^verbatim>\<open>split\<close>.\<close>

fun key_of_value :: "json \<Rightarrow> pyerr + pystr" where
  "key_of_value (JStr s) = Inr (get_link_unique_key s)"
| "key_of_value JNull = Inl AttributeError"
| "key_of_value (JBool b) = Inl AttributeError"
| "key_of_value (JInt n) = Inl AttributeError"
| "key_of_value (JFloat x) = Inl AttributeError"
| "key_of_value (JArr xs) = Inl AttributeError"
| "key_of_value (JObj d) = Inl AttributeError"

section \<open>Loading the history\<close>

text \<open>
  The start of \<^verbatim>\<open>scrape_xianyu\<close>:
  \<^verbatim>\<open>
  processed_links = set()
  output_filename = os.path.join("jsonl", f"{keyword.replace(' ', '_')}_full_data.jsonl")
  if os.path.exists(output_filename):
      try:
          with open(output_filename, 'r', encoding='utf-8') as f:
              for line in f:
                  try:
                      record = json.loads(line)
                      link = record.get('item_info', {}).get('item_link', '')
                      if link:
                          processed_links.add(get_link_unique_key(link))
                  except json.JSONDecodeError:
                      print(f"   [Warning] A line in the file could not be parsed as JSON, skipped.")
      except IOError as e:
          print(f"   [Warning] An error occurred while reading the history file: {e}")
  \<close>
  The file is read as UTF-8 text. The input is the list of lines the read delivers and
  the way the read ends: at the end of the file (with no line at all when the file does
  not exist), with an \<^verbatim>\<open>IOError\<close>, whose handler only prints (\<^verbatim>\<open>open\<close> itself may fail so,
  before any line), or with the \<^verbatim>\<open>UnicodeDecodeError\<close> the decoder raises on bytes that are
  not UTF-8, for example the rest of a line whose write was torn inside a multi-byte
  character. A \<^verbatim>\<open>UnicodeDecodeError\<close> is a \<^verbatim>\<open>ValueError\<close>: neither handler catches it. Per
  line only \<^verbatim>\<open>JSONDecodeError\<close> is caught; any other exception leaves \<^verbatim>\<open>scrape_xianyu\<close>.
\<close>

datatype read_end = EndOfFile | ReadIOError | ReadDecodeError

definition history_line_key :: "(pystr \<Rightarrow> pyerr + json) \<Rightarrow> pystr \<Rightarrow> pyerr + pystr option" where
  "history_line_key loads line =
     (case loads line of
        Inl e \<Rightarrow> if e = JSONDecodeError then Inr None else Inl e
      | Inr rcd \<Rightarrow>
          bind_err (py_get rcd (ustr ''item_info'') (JObj [])) (\<lambda>info.
          bind_err (py_get info (ustr ''item_link'') (JStr [])) (\<lambda>link.
            if truthy link then bind_err (key_of_value link) (\<lambda>k. Inr (Some k))
            else Inr None)))"

fun load_history ::
  "(pystr \<Rightarrow> pyerr + json) \<Rightarrow> pystr list \<Rightarrow> read_end \<Rightarrow> pystr set \<Rightarrow> pyerr + pystr set" where
  "load_history loads [] ending processed =
     (case ending of
        EndOfFile \<Rightarrow> Inr processed
      | ReadIOError \<Rightarrow> Inr processed
      | ReadDecodeError \<Rightarrow> Inl UnicodeDecodeError)"
| "load_history loads (line # rest) ending processed =
     bind_err (history_line_key loads line) (\<lambda>k.
       load_history loads rest ending
         (case k of None \<Rightarrow> processed | Some key \<Rightarrow> insert key processed))"

section \<open>The task run\<close>

text \<open>
  The task configuration as \<^verbatim>\<open>scrape_xianyu\<close> reads it: \<^verbatim>\<open>task_config['keyword']\<close>,
  \<^verbatim>\<open>task_config.get('task_name', 'Untitled Task')\<close>, \<^verbatim>\<open>task_config.get('ai_prompt_text', '')\<close>,
  \<^verbatim>\<open>task_config.get('max_pages', 1)\<close>, \<^verbatim>\<open>task_config.get('personal_only', False)\<close>,
  \<^verbatim>\<open>task_config.get('min_price')\<close>, \<^verbatim>\<open>task_config.get('max_price')\<close>, and the argument
  \<^verbatim>\<open>debug_limit\<close>.
\<close>

record task_config =
  keyword :: pystr
  task_name :: json
  ai_prompt_text :: json
  max_pages :: nat
  personal_only :: json
  min_price :: json
  max_price :: json
  debug_limit :: int

text \<open>
  The library functions the run uses and the model does not define: \<^verbatim>\<open>json.loads\<close> and
  the built-in \<^verbatim>\<open>str\<close> of a value.
\<close>

record pylib =
  json_loads :: "pystr \<Rightarrow> pyerr + json"
  py_str :: "json \<Rightarrow> pystr"

text \<open>
  What the outside world answers when an item is processed:
  \<^item> the detail fetch: \<^verbatim>\<open>context.new_page()\<close>, which stands before the item's \<^verbatim>\<open>try\<close>,
    raises; or the fetch ends with a timeout, with another exception, with a response
    that is not \<^verbatim>\<open>ok\<close>, or with an \<^verbatim>\<open>ok\<close> response and its decoded payload;
  \<^item> the draw of \<^verbatim>\<open>random.randint\<close>;
  \<^item> the result of \<^verbatim>\<open>scrape_user_profile\<close> (or the exception it lets out), and how many of
    its two delays it took: \<^verbatim>\<open>random_sleep(2, 4)\<close> once the head data is there, then
    \<^verbatim>\<open>random_sleep(3, 5)\<close> once the rating tab is clicked;
  \<^item> the exception \<^verbatim>\<open>download_all_images\<close> lets out (its comprehension over the URLs stands
    before its \<^verbatim>\<open>try\<close>), or the downloads it makes, one for each image that is not on
    disk yet, each given by the outcomes of the attempts of \<^verbatim>\<open>_download_single_image\<close>,
    which is decorated with \<^verbatim>\<open>@retry_on_failure(retries=2, delay=3)\<close>;
  \<^item> the clock;
  \<^item> the outcome of each call of the analysis service (the message content, or the
    exception);
  \<^item> the outcome of each attempt of \<^verbatim>\<open>send_ntfy_notification\<close>, which is decorated with
    \<^verbatim>\<open>@retry_on_failure(retries=3, delay=5)\<close>;
  \<^item> what becomes of the append: the line is written, the write fails with an \<^verbatim>\<open>IOError\<close>
    that \<^verbatim>\<open>save_to_jsonl\<close> catches, or \<^verbatim>\<open>os.makedirs\<close>, which stands before its \<^verbatim>\<open>try\<close>,
    raises.
\<close>

datatype detail_outcome = NoDetailPage | DetailTimeout | DetailError | DetailNotOk | DetailOk json

datatype save_outcome = Written | WriteFailed | MakedirsFailed

record item_env =
  detail :: detail_outcome
  cooldown_draw :: nat
  profile :: "pyerr + pydict"
  profile_delays :: nat
  downloads :: "pyerr + (nat \<Rightarrow> pyerr + json) list"
  crawl_time :: pystr
  ai_api :: "nat \<Rightarrow> pyerr + json"
  notify_api :: "nat \<Rightarrow> pyerr + json"
  save :: save_outcome

text \<open>
  The state of a run: the in-memory set \<^verbatim>\<open>processed_links\<close>, the counter
  \<^verbatim>\<open>processed_item_count\<close>, the records this run has appended to the history file (oldest
  first), and the effects so far.
\<close>

record run_state =
  processed_links :: "pystr set"
  processed_item_count :: nat
  appended :: "json list"
  effects :: "event list"

definition emit :: "event list \<Rightarrow> run_state \<Rightarrow> run_state" where
  "emit evs st = st\<lparr>effects := effects st @ evs\<rparr>"

text \<open>
  How the item loop goes on after an item: to the next item, out of the loop with
  \<^verbatim>\<open>stop_scraping\<close> set, or out of the task through the handlers at the end of
  \<^verbatim>\<open>scrape_xianyu\<close> (an exception raised outside the item's own \<^verbatim>\<open>try\<close>).
\<close>

datatype flow = NextItem | StopScraping | TaskError

text \<open>\<^verbatim>\<open>random.randint(lo, hi)\<close> returns an integer of \<open>[lo, hi]\<close>; the draw selects it.\<close>

definition randint :: "nat \<Rightarrow> nat \<Rightarrow> nat \<Rightarrow> nat" where
  "randint lo hi draw = lo + draw mod (hi - lo + 1)"

text \<open>
  \<^verbatim>\<open>
  ret_string = str(await safe_get(detail_json, 'ret', default=[]))
  if "FAIL_SYS_USER_VALIDATE" in ret_string:
  \<close>
\<close>

definition block_detected :: "pylib \<Rightarrow> json \<Rightarrow> pyerr + bool" where
  "block_detected lib detail_json =
     bind_err (safe_get detail_json [KStr (ustr ''ret'')] (JArr [])) (\<lambda>ret.
       Inr (str_contains (ustr ''FAIL_SYS_USER_VALIDATE'') (py_str lib ret)))"

text \<open>
  \<^verbatim>\<open>[img.get('url') for img in image_infos if img.get('url')]\<close> over the elements of a
  list; \<open>image_urls\<close> is the whole statement for a truthy \<^verbatim>\<open>image_infos\<close>: iterating a
  string or a dict yields strings, which have no \<^verbatim>\<open>get\<close>, and a number is not iterable.
\<close>

fun url_list :: "json list \<Rightarrow> pyerr + json list" where
  "url_list [] = Inr []"
| "url_list (img # imgs) =
     bind_err (py_get img (ustr ''url'') JNull) (\<lambda>u.
     bind_err (url_list imgs) (\<lambda>us. Inr (if truthy u then u # us else us)))"

fun image_urls :: "json \<Rightarrow> pyerr + json list" where
  "image_urls (JArr imgs) = url_list imgs"
| "image_urls (JStr s) = Inl AttributeError"
| "image_urls (JObj d) = Inl AttributeError"
| "image_urls JNull = Inl TypeError"
| "image_urls (JBool b) = Inl TypeError"
| "image_urls (JInt n) = Inl TypeError"
| "image_urls (JFloat x) = Inl TypeError"

text \<open>
  The assembly of the unified record, from the payload check to the image download
  (the lines between the block check and the analysis in \<^verbatim>\<open>scrape_xianyu\<close>):
  \<^verbatim>\<open>
  item_do = await safe_get(detail_json, 'data', 'itemDO', default={})
  seller_do = await safe_get(detail_json, 'data', 'sellerDO', default={})
  reg_days_raw = await safe_get(seller_do, 'userRegDay', default=0)
  registration_duration_text = format_registration_days(reg_days_raw)
  zhima_credit_text = await safe_get(seller_do, 'zhimaLevelInfo', 'levelName')
  image_infos = await safe_get(item_do, 'imageInfos', default=[])
  if image_infos:
      all_image_urls = [img.get('url') for img in image_infos if img.get('url')]
      if all_image_urls:
          item_data['item_image_list'] = all_image_urls
          item_data['item_main_image_link'] = all_image_urls[0]
  item_data['wants_count'] = await safe_get(item_do, 'wantCnt', default=item_data.get('wants_count', 'NaN'))
  item_data['views_count'] = await safe_get(item_do, 'browseCnt', default='-')
  user_profile_data = {}
  user_id = await safe_get(seller_do, 'sellerId')
  if user_id:
      user_profile_data = await scrape_user_profile(context, str(user_id))
  user_profile_data['seller_zhima_credit'] = zhima_credit_text
  user_profile_data['seller_registration_duration'] = registration_duration_text
  final_record = {
      "crawl_time": datetime.now().isoformat(),
      "search_keyword": keyword,
      "task_name": task_config.get('task_name', 'Untitled Task'),
      "item_info": item_data,
      "seller_info": user_profile_data
  }
  print(f"   -> Starting real-time AI analysis for item #{item_data['item_id']}...")
  image_urls = item_data.get('item_image_list', [])
  downloaded_image_paths = await download_all_images(item_data['item_id'], image_urls)
  \<close>
\<close>

definition with_images :: "pydict \<Rightarrow> json \<Rightarrow> pyerr + pydict" where
  "with_images item_data image_infos =
     (if truthy image_infos then
        bind_err (image_urls image_infos) (\<lambda>urls.
          case urls of
            [] \<Rightarrow> Inr item_data
          | u # us \<Rightarrow>
              Inr (dict_set (dict_set item_data (ustr ''item_image_list'') (JArr urls))
                     (ustr ''item_main_image_link'') u))
      else Inr item_data)"

text \<open>
  The delays inside the collaborators: those \<^verbatim>\<open>scrape_user_profile\<close> took, and the attempts
  and delays of the downloads \<^verbatim>\<open>download_all_images\<close> made, one after the other.
\<close>

definition profile_effects :: "item_env \<Rightarrow> event list" where
  "profile_effects env = take (profile_delays env) [RandomSleep 2 4, RandomSleep 3 5]"

definition download_effects :: "(nat \<Rightarrow> pyerr + json) list \<Rightarrow> event list" where
  "download_effects ds = concat (map (\<lambda>d. snd (retry_on_failure 2 3 d)) ds)"

text \<open>
  The statements up to \<^verbatim>\<open>user_id\<close>, which call nothing outside: the result is the updated
  \<^verbatim>\<open>item_data\<close>, \<^verbatim>\<open>zhima_credit_text\<close>, \<^verbatim>\<open>registration_duration_text\<close> and \<^verbatim>\<open>user_id\<close>.
\<close>

definition detail_fields :: "pydict \<Rightarrow> json \<Rightarrow> pyerr + pydict \<times> json \<times> pystr \<times> json" where
  "detail_fields item_data detail_json =
     bind_err (safe_get detail_json [KStr (ustr ''data''), KStr (ustr ''itemDO'')] (JObj [])) (\<lambda>item_do.
     bind_err (safe_get detail_json [KStr (ustr ''data''), KStr (ustr ''sellerDO'')] (JObj [])) (\<lambda>seller_do.
     bind_err (safe_get seller_do [KStr (ustr ''userRegDay'')] (JInt 0)) (\<lambda>reg_days_raw.
     bind_err (format_registration_days reg_days_raw) (\<lambda>registration_duration_text.
     bind_err (safe_get_default seller_do [KStr (ustr ''zhimaLevelInfo''), KStr (ustr ''levelName'')])
       (\<lambda>zhima_credit_text.
     bind_err (safe_get item_do [KStr (ustr ''imageInfos'')] (JArr [])) (\<lambda>image_infos.
     bind_err (with_images item_data image_infos) (\<lambda>item1.
     bind_err (py_get (JObj item1) (ustr ''wants_count'') (JStr (ustr ''NaN''))) (\<lambda>old_wants.
     bind_err (safe_get item_do [KStr (ustr ''wantCnt'')] old_wants) (\<lambda>wants.
     bind_err (safe_get item_do [KStr (ustr ''browseCnt'')] (JStr (ustr ''-''))) (\<lambda>views.
     bind_err (safe_get_default seller_do [KStr (ustr ''sellerId'')]) (\<lambda>user_id.
       Inr (dict_set (dict_set item1 (ustr ''wants_count'') wants) (ustr ''views_count'') views,
            zhima_credit_text, registration_duration_text, user_id))))))))))))"

text \<open>
  The whole assembly: the record or the exception, and the effects of the collaborators
  that were called before.
\<close>

definition assemble_record ::
  "task_config \<Rightarrow> item_env \<Rightarrow> pydict \<Rightarrow> json \<Rightarrow> (pyerr + pydict) \<times> event list" where
  "assemble_record cfg env item_data detail_json =
     (case detail_fields item_data detail_json of
        Inl e \<Rightarrow> (Inl e, [])
      | Inr (item_info, zhima_credit_text, registration_duration_text, user_id) \<Rightarrow>
          (let scraped = (if truthy user_id then (profile env, profile_effects env) else (Inr [], []))
           in case fst scraped of
             Inl e \<Rightarrow> (Inl e, snd scraped)
           | Inr user_profile_data \<Rightarrow>
               (case py_getitem (JObj item_info) (KStr (ustr ''item_id'')) of
                  Inl e \<Rightarrow> (Inl e, snd scraped)
                | Inr item_id \<Rightarrow>
                    (case downloads env of
                       Inl e \<Rightarrow> (Inl e, snd scraped)
                     | Inr ds \<Rightarrow>
                         (Inr [(ustr ''crawl_time'', JStr (crawl_time env)),
                               (ustr ''search_keyword'', JStr (keyword cfg)),
                               (ustr ''task_name'', task_name cfg),
                               (ustr ''item_info'', JObj item_info),
                               (ustr ''seller_info'',
                                  JObj (dict_set
                                          (dict_set user_profile_data (ustr ''seller_zhima_credit'')
                                             zhima_credit_text)
                                          (ustr ''seller_registration_duration'')
                                          (JStr registration_duration_text)))],
                          snd scraped @ download_effects ds)))))"

text \<open>
  One call of the body of \<^verbatim>\<open>get_ai_analysis\<close>: it returns \<^verbatim>\<open>None\<close> without calling the
  service when the prompt is empty; otherwise the service is called, and the message
  content parsed (a content that is not a string has no \<^verbatim>\<open>find\<close>). The function is
  decorated with \<^verbatim>\<open>@retry_on_failure(retries=5, delay=10)\<close>.
\<close>

definition ai_attempt :: "pylib \<Rightarrow> json \<Rightarrow> (nat \<Rightarrow> pyerr + json) \<Rightarrow> nat \<Rightarrow> pyerr + json" where
  "ai_attempt lib prompt_text api i =
     (if \<not> truthy prompt_text then Inr JNull
      else case api i of
             Inl e \<Rightarrow> Inl e
           | Inr (JStr content) \<Rightarrow> parse_ai_response (json_loads lib) content
           | Inr other \<Rightarrow> Inl AttributeError)"

definition get_ai_analysis :: "pylib \<Rightarrow> json \<Rightarrow> (nat \<Rightarrow> pyerr + json) \<Rightarrow> json \<times> event list" where
  "get_ai_analysis lib prompt_text api = retry_on_failure 5 10 (ai_attempt lib prompt_text api)"

definition ai_error_marker :: json where
  "ai_error_marker = JObj [(ustr ''error'', JStr (ustr ''AI analysis returned None after retries.''))]"

text \<open>
  \<^verbatim>\<open>
  ai_analysis_result = None
  if ai_prompt_text:
      try:
          ai_analysis_result = await get_ai_analysis(final_record, downloaded_image_paths, prompt_text=ai_prompt_text)
          if ai_analysis_result:
              final_record['ai_analysis'] = ai_analysis_result
              print(f"... {ai_analysis_result.get('is_recommended')}")
          else:
              final_record['ai_analysis'] = {'error': 'AI analysis returned None after retries.'}
      except Exception as e:
          final_record['ai_analysis'] = {'error': str(e)}
  if ai_analysis_result and ai_analysis_result.get('is_recommended'):
      await send_ntfy_notification(item_data, ai_analysis_result.get("reason", "No reason provided"))
  \<close>
  A truthy result that is not a dict has no \<^verbatim>\<open>get\<close>: the \<^verbatim>\<open>print\<close> raises inside the
  \<^verbatim>\<open>try\<close>, and the test before the notification raises again outside it, so the item is
  left through the item's handler and its record is dropped. The result is the record
  and whether the notification is sent.
\<close>

definition analyse :: "pylib \<Rightarrow> task_config \<Rightarrow> item_env \<Rightarrow> pydict \<Rightarrow> (pyerr + pydict \<times> bool) \<times> event list" where
  "analyse lib cfg env final_record =
     (if truthy (ai_prompt_text cfg) then
        (let res = get_ai_analysis lib (ai_prompt_text cfg) (ai_api env) in
         if truthy (fst res) then
           (case py_get (fst res) (ustr ''is_recommended'') JNull of
              Inl e \<Rightarrow> (Inl e, snd res)
            | Inr rec \<Rightarrow>
                (Inr (dict_set final_record (ustr ''ai_analysis'') (fst res), truthy rec), snd res))
         else (Inr (dict_set final_record (ustr ''ai_analysis'') ai_error_marker, False), snd res))
      else (Inr (final_record, False), []))"

text \<open>
  \<^verbatim>\<open>save_to_jsonl\<close>, then the commit:
  \<^verbatim>\<open>
  await save_to_jsonl(final_record, keyword)
  processed_links.add(unique_key)
  processed_item_count += 1
  await random_sleep(15, 30)
  \<close>
  The boolean \<^verbatim>\<open>save_to_jsonl\<close> returns is not looked at.
\<close>

text \<open>
  The call of \<^verbatim>\<open>send_ntfy_notification\<close> with the attempts its decorator makes. The wrapper
  raises nothing, and what it returns is dropped.
\<close>

definition notification_effects :: "item_env \<Rightarrow> bool \<Rightarrow> event list" where
  "notification_effects env notify =
     (if notify then Notify # snd (retry_on_failure 3 5 (notify_api env)) else [])"

definition save_and_commit :: "item_env \<Rightarrow> pystr \<Rightarrow> pydict \<Rightarrow> run_state \<Rightarrow> run_state" where
  "save_and_commit env unique_key final_record st =
     (case save env of
        MakedirsFailed \<Rightarrow> st
      | Written \<Rightarrow>
          emit [SaveCall (JObj final_record) True, MarkProcessed unique_key, RandomSleep 15 30]
            (st\<lparr>processed_links := insert unique_key (processed_links st),
                 processed_item_count := processed_item_count st + 1,
                 appended := appended st @ [JObj final_record]\<rparr>)
      | WriteFailed \<Rightarrow>
          emit [SaveCall (JObj final_record) False, MarkProcessed unique_key, RandomSleep 15 30]
            (st\<lparr>processed_links := insert unique_key (processed_links st),
                 processed_item_count := processed_item_count st + 1\<rparr>))"

text \<open>
  The work on a new item after an \<^verbatim>\<open>ok\<close> detail response without the block code. Every
  exception in it is caught by the item's handler (\<^verbatim>\<open>except Exception\<close>), which prints.
\<close>

definition process_detail ::
  "pylib \<Rightarrow> task_config \<Rightarrow> item_env \<Rightarrow> pystr \<Rightarrow> pydict \<Rightarrow> json \<Rightarrow> run_state \<Rightarrow> run_state" where
  "process_detail lib cfg env unique_key item_data detail_json st =
     (case fst (assemble_record cfg env item_data detail_json) of
        Inl e \<Rightarrow> emit (snd (assemble_record cfg env item_data detail_json)) st
      | Inr final_record \<Rightarrow>
          (case fst (analyse lib cfg env final_record) of
             Inl e \<Rightarrow>
               emit (snd (assemble_record cfg env item_data detail_json)
                     @ snd (analyse lib cfg env final_record)) st
           | Inr (rcd, notify) \<Rightarrow>
               save_and_commit env unique_key rcd
                 (emit (snd (assemble_record cfg env item_data detail_json)
                        @ snd (analyse lib cfg env final_record)
                        @ notification_effects env notify) st)))"

text \<open>
  \<^verbatim>\<open>item_data['item_title'][:20]\<close> in the progress messages, which stand outside the item's
  \<^verbatim>\<open>try\<close>: the key must be there and its value must take a slice.
\<close>

definition title_sliceable :: "pydict \<Rightarrow> bool" where
  "title_sliceable item_data =
     (case map_of item_data (ustr ''item_title'') of
        Some (JStr s) \<Rightarrow> True
      | Some (JArr xs) \<Rightarrow> True
      | _ \<Rightarrow> False)"

text \<open>\<^verbatim>\<open>unique_key = get_link_unique_key(item_data["item_link"])\<close>.\<close>

definition item_key :: "pydict \<Rightarrow> pyerr + pystr" where
  "item_key item_data =
     bind_err (py_getitem (JObj item_data) (KStr (ustr ''item_link''))) key_of_value"

text \<open>
  One iteration of the item loop of \<^verbatim>\<open>scrape_xianyu\<close>: the debug limit, the membership test,
  the delay before the detail page is opened, the detail fetch, the block check with its
  cooldown, the processing, and the \<^verbatim>\<open>finally\<close> clause (\<^verbatim>\<open>random_sleep(2, 4)\<close>) that ends
  every fetch.
\<close>

definition process_item ::
  "pylib \<Rightarrow> task_config \<Rightarrow> pydict \<times> item_env \<Rightarrow> run_state \<Rightarrow> flow \<times> run_state" where
  "process_item lib cfg it st =
     (if debug_limit cfg > 0 \<and> int (processed_item_count st) \<ge> debug_limit cfg
      then (StopScraping, st)
      else case item_key (fst it) of
        Inl e \<Rightarrow> (TaskError, st)
      | Inr unique_key \<Rightarrow>
          if \<not> title_sliceable (fst it) then (TaskError, st)
          else if unique_key \<in> processed_links st then (NextItem, st)
          else
            (let st1 = emit [RandomSleep 3 6, DetailFetch unique_key] st in
             case detail (snd it) of
               NoDetailPage \<Rightarrow> (TaskError, emit [RandomSleep 3 6] st)
             | DetailTimeout \<Rightarrow> (NextItem, emit [RandomSleep 2 4] st1)
             | DetailError \<Rightarrow> (NextItem, emit [RandomSleep 2 4] st1)
             | DetailNotOk \<Rightarrow> (NextItem, emit [RandomSleep 2 4] st1)
             | DetailOk detail_json \<Rightarrow>
                 (case block_detected lib detail_json of
                    Inl e \<Rightarrow> (NextItem, emit [RandomSleep 2 4] st1)
                  | Inr True \<Rightarrow>
                      (StopScraping,
                       emit [Sleep (randint 300 600 (cooldown_draw (snd it))), RandomSleep 2 4] st1)
                  | Inr False \<Rightarrow>
                      (NextItem,
                       emit [RandomSleep 2 4]
                         (process_detail lib cfg (snd it) unique_key (fst it) detail_json st1)))))"

fun run_items ::
  "pylib \<Rightarrow> task_config \<Rightarrow> (pydict \<times> item_env) list \<Rightarrow> run_state \<Rightarrow> flow \<times> run_state" where
  "run_items lib cfg [] st = (NextItem, st)"
| "run_items lib cfg (it # its) st =
     (case process_item lib cfg it st of
        (NextItem, st') \<Rightarrow> run_items lib cfg its st'
      | (StopScraping, st') \<Rightarrow> (StopScraping, st')
      | (TaskError, st') \<Rightarrow> (TaskError, st'))"

text \<open>
  The page loop. A page's response is unusable (\<^verbatim>\<open>continue\<close>) or parsed into its items,
  each with what the world answers for it. Going to a later page finds no button, times
  out (both \<^verbatim>\<open>break\<close>), raises another exception (the task's handler), or delivers the
  next response; a turn that fails says whether its delay, \<^verbatim>\<open>random_sleep(5, 8)\<close> after the
  click, had been taken. \<open>run_pages k n\<close> processes page \<open>n\<close> with \<open>k\<close> pages left after
  it (\<^verbatim>\<open>page_num < max_pages\<close> is \<open>k > 0\<close>).
\<close>

datatype page_response = BadResponse | Listing "(pydict \<times> item_env) list"

datatype page_turn = NoNextButton | TurnTimeout bool | TurnError bool | Turned page_response

definition turn_delay :: "bool \<Rightarrow> event list" where
  "turn_delay slept = (if slept then [RandomSleep 5 8] else [])"

fun run_pages ::
  "pylib \<Rightarrow> task_config \<Rightarrow> (nat \<Rightarrow> page_turn) \<Rightarrow> nat \<Rightarrow> nat \<Rightarrow> page_response \<Rightarrow> run_state
     \<Rightarrow> run_state" where
  "run_pages lib cfg turn k n BadResponse st =
     (case k of
        0 \<Rightarrow> st
      | Suc j \<Rightarrow>
          (case turn (Suc n) of
             Turned r \<Rightarrow> run_pages lib cfg turn j (Suc n) r (emit [RandomSleep 5 8] st)
           | NoNextButton \<Rightarrow> st
           | TurnTimeout slept \<Rightarrow> emit (turn_delay slept) st
           | TurnError slept \<Rightarrow> emit (turn_delay slept) st))"
| "run_pages lib cfg turn k n (Listing items) st =
     (if items = [] then st
      else case run_items lib cfg items st of
        (StopScraping, st') \<Rightarrow> st'
      | (TaskError, st') \<Rightarrow> st'
      | (NextItem, st') \<Rightarrow>
          (case k of
             0 \<Rightarrow> st'
           | Suc j \<Rightarrow>
               (case turn (Suc n) of
                  Turned r \<Rightarrow>
                    run_pages lib cfg turn j (Suc n) r
                      (emit [RandomSleep 25 50, RandomSleep 5 8] st')
                | NoNextButton \<Rightarrow> emit [RandomSleep 25 50] st'
                | TurnTimeout slept \<Rightarrow> emit (RandomSleep 25 50 # turn_delay slept) st'
                | TurnError slept \<Rightarrow> emit (RandomSleep 25 50 # turn_delay slept) st')))"

text \<open>
  Before the page loop the task launches the browser, opens the search page and applies
  the filters:
  \<^verbatim>\<open>
  await page.click('text=...')
  await random_sleep(2, 4)
  async with page.expect_response(...) as response_info:
      await page.click('text=...')
      await random_sleep(4, 7)
  final_response = await response_info.value
  if personal_only:
      async with page.expect_response(...) as response_info:
          await page.click('text=...')
          await random_sleep(4, 6)
      final_response = await response_info.value
  if min_price or max_price:
      price_container = page.locator('div[class*="search-price-input-container"]').first
      if await price_container.is_visible():
          if min_price:
              await price_container.get_by_placeholder(...).first.fill(min_price)
              await random_sleep(1, 2.5)
          if max_price:
              await price_container.get_by_placeholder(...).nth(1).fill(max_price)
              await random_sleep(1, 2.5)
          async with page.expect_response(...) as response_info:
              await page.keyboard.press('Tab')
              await random_sleep(4, 7)
          final_response = await response_info.value
  \<close>
  \<open>prelude_delays\<close> are the delays of a prelude that goes through, given whether the price
  inputs are visible.
\<close>

definition prelude_delays :: "task_config \<Rightarrow> bool \<Rightarrow> event list" where
  "prelude_delays cfg visible =
     [RandomSleep 2 4, RandomSleep 4 7]
     @ (if truthy (personal_only cfg) then [RandomSleep 4 6] else [])
     @ (if (truthy (min_price cfg) \<or> truthy (max_price cfg)) \<and> visible
        then (if truthy (min_price cfg) then [RandomSleep 1 (5 / 2)] else [])
             @ (if truthy (max_price cfg) then [RandomSleep 1 (5 / 2)] else [])
             @ [RandomSleep 4 7]
        else [])"

text \<open>
  The prelude ends in one of these ways: launching the browser or opening the context,
  which stands before the \<^verbatim>\<open>try\<close>, raises; the verification pop-up is there (the task
  returns at once, before any delay); an exception or a timeout comes after so many of
  the delays (the task's handlers); or it goes through, with the response the first page
  is read from. The flag says whether the price inputs are visible.
\<close>

datatype prelude =
    BrowserError
  | PopupBlocked
  | PreludeError bool nat
  | Ready bool page_response

text \<open>
  \<^verbatim>\<open>scrape_xianyu\<close>: the history load (an exception of it leaves the function), the
  prelude, the page loop for \<^verbatim>\<open>range(1, max_pages + 1)\<close>, and the \<^verbatim>\<open>finally\<close> clause
  with \<^verbatim>\<open>asyncio.sleep(5)\<close>. The function returns \<open>processed_item_count\<close> of the final
  state.
\<close>

definition scrape_xianyu ::
  "pylib \<Rightarrow> task_config \<Rightarrow> pystr list \<Rightarrow> read_end \<Rightarrow> prelude \<Rightarrow> (nat \<Rightarrow> page_turn)
     \<Rightarrow> pyerr + run_state" where
  "scrape_xianyu lib cfg history_lines history_end pre turn =
     bind_err (load_history (json_loads lib) history_lines history_end {}) (\<lambda>loaded.
       let st0 = \<lparr>processed_links = loaded, processed_item_count = 0, appended = [], effects = []\<rparr>
       in case pre of
            BrowserError \<Rightarrow> Inl PlaywrightError
          | PopupBlocked \<Rightarrow> Inr (emit [Sleep 5] st0)
          | PreludeError visible n \<Rightarrow>
              Inr (emit (take n (prelude_delays cfg visible) @ [Sleep 5]) st0)
          | Ready visible r \<Rightarrow>
              Inr (emit [Sleep 5]
                (case max_pages cfg of
                   0 \<Rightarrow> emit (prelude_delays cfg visible) st0
                 | Suc k \<Rightarrow>
                     run_pages lib cfg turn k 1 r (emit (prelude_delays cfg visible) st0))))"

text \<open>
  A stand-in for the decoder that returns the text it is handed as a string value; with
  it a result shows which text \<open>parse_ai_response\<close> decodes.
\<close>

definition decoded_text :: "pystr \<Rightarrow> pyerr + json" where
  "decoded_text t = Inr (JStr t)"

section \<open>Reference notions for the history\<close>

text \<open>
  The link a history record commits: the non-empty string under
  \<^verbatim>\<open>item_info.item_link\<close> of a record.
\<close>

definition record_link :: "json \<Rightarrow> pystr option" where
  "record_link r =
     (case r of
        JObj d \<Rightarrow>
          (case map_of d (ustr ''item_info'') of
             Some (JObj info) \<Rightarrow>
               (case map_of info (ustr ''item_link'') of
                  Some (JStr s) \<Rightarrow> if s = [] then None else Some s
                | _ \<Rightarrow> None)
           | _ \<Rightarrow> None)
      | _ \<Rightarrow> None)"

text \<open>The dedup keys committed in the lines of a history file.\<close>

definition history_keys :: "(pystr \<Rightarrow> pyerr + json) \<Rightarrow> pystr list \<Rightarrow> pystr set" where
  "history_keys loads lines =
     set (List.map_filter
            (\<lambda>line. case loads line of
                       Inr r \<Rightarrow> map_option get_link_unique_key (record_link r)
                     | Inl e \<Rightarrow> None)
            lines)"

text \<open>
  The shape of the lines \<^verbatim>\<open>save_to_jsonl\<close> writes, and of what is left of them after a
  torn write: a line either fails to decode, or decodes to an object whose
  \<^verbatim>\<open>item_info\<close>, when present, is an object whose \<^verbatim>\<open>item_link\<close>, when present, is a string
  or a falsy value.
\<close>

definition link_shaped :: "json \<Rightarrow> bool" where
  "link_shaped v = (case v of JStr s \<Rightarrow> True | _ \<Rightarrow> \<not> truthy v)"

definition record_shaped :: "json \<Rightarrow> bool" where
  "record_shaped r =
     (case r of
        JObj d \<Rightarrow>
          (case map_of d (ustr ''item_info'') of
             None \<Rightarrow> True
           | Some (JObj info) \<Rightarrow>
               (case map_of info (ustr ''item_link'') of
                  None \<Rightarrow> True
                | Some v \<Rightarrow> link_shaped v)
           | Some other \<Rightarrow> False)
      | _ \<Rightarrow> False)"

definition line_shaped :: "(pystr \<Rightarrow> pyerr + json) \<Rightarrow> pystr \<Rightarrow> bool" where
  "line_shaped loads line =
     (case loads line of Inl e \<Rightarrow> e = JSONDecodeError | Inr r \<Rightarrow> record_shaped r)"

text \<open>
  \<^verbatim>\<open>json.loads\<close> on the texts of the examples in this theory, where it returns what
  \<^verbatim>\<open>json.loads\<close> returns; every other text is rejected here.
\<close>

definition example_loads :: "pystr \<Rightarrow> pyerr + json" where
  "example_loads t =
     (if t = ustr ''[]'' @ [10] then Inr (JArr [])
      else if t = ustr ''{\"item_info\": {\"item_link\": \"https://www.goofish.com/item?id=1&spm=a\"}}'' @ [10]
        then Inr (JObj [(ustr ''item_info'',
                         JObj [(ustr ''item_link'', JStr (ustr ''https://www.goofish.com/item?id=1&spm=a''))])])
      else if t = ustr ''{\"is_recommended\": false, \"reason\": \"test\"}''
        then Inr (JObj [(ustr ''is_recommended'', JBool False), (ustr ''reason'', JStr (ustr ''test''))])
      else Inl JSONDecodeError)"

section \<open>Example inputs\<close>

text \<open>
  \<^verbatim>\<open>str\<close> on the values of the examples in this theory, where it returns what Python
  returns (\<^verbatim>\<open>str(['FAIL_SYS_USER_VALIDATE'])\<close> is \<^verbatim>\<open>"['FAIL_SYS_USER_VALIDATE']"\<close>); every other
  value is rendered as the empty string here.
\<close>

definition example_str :: "json \<Rightarrow> pystr" where
  "example_str v =
     (if v = JArr [JStr (ustr ''FAIL_SYS_USER_VALIDATE'')]
        then [91, 39] @ ustr ''FAIL_SYS_USER_VALIDATE'' @ [39, 93]
      else if v = JArr [JStr (ustr ''SUCCESS'')]
        then [91, 39] @ ustr ''SUCCESS'' @ [39, 93]
      else [])"

definition example_lib :: pylib where
  "example_lib = \<lparr>json_loads = example_loads, py_str = example_str\<rparr>"

definition example_config :: task_config where
  "example_config =
     \<lparr>keyword = ustr ''phone'', task_name = JStr (ustr ''demo''),
      ai_prompt_text = JStr (ustr ''Judge this listing.''), max_pages = 1,
      personal_only = JBool False, min_price = JNull, max_price = JNull, debug_limit = 0\<rparr>"

text \<open>A listing item as \<^verbatim>\<open>_parse_search_results_json\<close> builds it, with the given link.\<close>

definition example_item :: "pystr \<Rightarrow> pydict" where
  "example_item link =
     [(ustr ''item_title'', JStr (ustr ''Phone'')),
      (ustr ''current_price'', JStr (ustr ''100'')),
      (ustr ''wants_count'', JStr (ustr ''NaN'')),
      (ustr ''item_link'', JStr link),
      (ustr ''item_id'', JStr (ustr ''2''))]"

definition blocked_payload :: json where
  "blocked_payload = JObj [(ustr ''ret'', JArr [JStr (ustr ''FAIL_SYS_USER_VALIDATE'')])]"

definition plain_payload :: json where
  "plain_payload = JObj [(ustr ''ret'', JArr [JStr (ustr ''SUCCESS'')])]"

definition example_env :: "detail_outcome \<Rightarrow> (nat \<Rightarrow> pyerr + json) \<Rightarrow> save_outcome \<Rightarrow> item_env" where
  "example_env d api s =
     \<lparr>detail = d, cooldown_draw = 7, profile = Inr [], profile_delays = 0, downloads = Inr [],
      crawl_time = ustr ''2025-01-01T00:00:00'', ai_api = api, notify_api = (\<lambda>i. Inr JNull),
      save = s\<rparr>"

definition service_down :: "nat \<Rightarrow> pyerr + json" where
  "service_down i = Inl APIError"

definition service_rejects :: "nat \<Rightarrow> pyerr + json" where
  "service_rejects i = Inr (JStr (ustr ''{\"is_recommended\": false, \"reason\": \"test\"}''))"

definition fresh_state :: "pystr set \<Rightarrow> run_state" where
  "fresh_state loaded =
     \<lparr>processed_links = loaded, processed_item_count = 0, appended = [], effects = []\<rparr>"

section \<open>Reference notions for the run\<close>

text \<open>Whether an effect is an attempt of a retried call.\<close>

fun is_attempt :: "event \<Rightarrow> bool" where
  "is_attempt (Attempt i) = True"
| "is_attempt (RandomSleep a b) = False"
| "is_attempt (Sleep n) = False"
| "is_attempt (DetailFetch k) = False"
| "is_attempt Notify = False"
| "is_attempt (SaveCall r ok) = False"
| "is_attempt (MarkProcessed k) = False"

text \<open>
  The record the assembly builds for \<open>example_item link\<close> from \<open>plain_payload\<close>, which has
  neither item nor seller data.
\<close>

definition example_record :: "pystr \<Rightarrow> pydict" where
  "example_record link =
     [(ustr ''crawl_time'', JStr (ustr ''2025-01-01T00:00:00'')),
      (ustr ''search_keyword'', JStr (ustr ''phone'')),
      (ustr ''task_name'', JStr (ustr ''demo'')),
      (ustr ''item_info'',
         JObj [(ustr ''item_title'', JStr (ustr ''Phone'')),
               (ustr ''current_price'', JStr (ustr ''100'')),
               (ustr ''wants_count'', JStr (ustr ''NaN'')),
               (ustr ''item_link'', JStr link),
               (ustr ''item_id'', JStr (ustr ''2'')),
               (ustr ''views_count'', JStr (ustr ''-''))]),
      (ustr ''seller_info'',
         JObj [(ustr ''seller_zhima_credit'', JStr (ustr ''Not available'')),
               (ustr ''seller_registration_duration'', JStr (ustr ''Unknown''))])]"

definition service_garbles :: "nat \<Rightarrow> pyerr + json" where
  "service_garbles i = Inr (JStr (ustr ''{\"is_recommended\": fal''))"

definition service_recovers :: "nat \<Rightarrow> pyerr + json" where
  "service_recovers i =
     (if i = 0 then Inr (JStr (ustr ''{\"is_recommended\": fal''))
      else Inr (JStr (ustr ''{\"is_recommended\": false, \"reason\": \"test\"}'')))"

text \<open>
  What retrying with a fixed delay means: \<open>n\<close> attempts, numbered from \<open>i\<close>, with a sleep
  of \<open>delay\<close> seconds between two consecutive attempts and nothing before the first or
  after the last.
\<close>

fun spaced_attempts :: "nat \<Rightarrow> nat \<Rightarrow> nat \<Rightarrow> event list" where
  "spaced_attempts delay i 0 = []"
| "spaced_attempts delay i (Suc n) =
     Attempt i # (if n = 0 then [] else Sleep delay # spaced_attempts delay (Suc i) n)"

text \<open>
  The effects of the work between the detail fetch and the save: a delay, an attempt of
  a retried call, or the call of the notification.
\<close>

fun is_inner :: "event \<Rightarrow> bool" where
  "is_inner (RandomSleep a b) = True"
| "is_inner (Sleep n) = True"
| "is_inner (Attempt i) = True"
| "is_inner Notify = True"
| "is_inner (DetailFetch k) = False"
| "is_inner (SaveCall r ok) = False"
| "is_inner (MarkProcessed k) = False"

text \<open>
  The two ways the work on a fetched item ends: without a commit, the state being the
  same but for effects that are no commits, or with the commit.
\<close>

definition uncommitted :: "run_state \<Rightarrow> run_state \<Rightarrow> bool" where
  "uncommitted st st' \<longleftrightarrow>
     processed_links st' = processed_links st \<and> appended st' = appended st
     \<and> processed_item_count st' = processed_item_count st
     \<and> (\<exists>evs. effects st' = effects st @ evs \<and> (\<forall>ev \<in> set evs. is_inner ev))"



section \<open>Properties of safe_get\<close>

lemma py_index_raises: "py_index xs i = Inl e \<Longrightarrow> e = IndexError"
  by (auto simp: py_index_def split: if_splits)

lemma py_getitem_raises: "py_getitem data key = Inl e \<Longrightarrow> safe_get_caught e"
  by (cases "(data, key)" rule: py_getitem.cases)
     (auto simp: safe_get_caught_def split: option.splits sum.splits dest: py_index_raises)

lemma safe_get_as_lookup:
  "safe_get data keys dflt =
     Inr (case nested_lookup data keys of Inr v \<Rightarrow> v | Inl e \<Rightarrow> dflt)"
proof (induction keys arbitrary: data)
  case Nil
  show ?case by simp
next
  case (Cons key keys)
  show ?case
  proof (cases "py_getitem data key")
    case (Inl e)
    then show ?thesis using py_getitem_raises [OF Inl] by simp
  next
    case (Inr v)
    then show ?thesis using Cons.IH [of v] by simp
  qed
qed

text \<open>
  C10. \<open>safe_get\<close> is total and never lets an exception out: it returns the nested value
  when every subscript succeeds, and the supplied default as soon as a subscript raises;
  without a supplied default that is the string "Not available".
\<close>

theorem safe_get_total:
  "(\<exists>v. safe_get data keys dflt = Inr v)
   \<and> (\<forall>v. nested_lookup data keys = Inr v \<longrightarrow> safe_get data keys dflt = Inr v)
   \<and> (\<forall>e. nested_lookup data keys = Inl e \<longrightarrow> safe_get data keys dflt = Inr dflt)
   \<and> (\<forall>e. nested_lookup data keys = Inl e \<longrightarrow>
         safe_get_default data keys = Inr (JStr (ustr ''Not available'')))"
  by (simp add: safe_get_as_lookup safe_get_default_def not_available_def)

theorem safe_get_total_witness:
  "nested_lookup (JObj [(ustr ''a'', JArr [JInt 7])]) [KStr (ustr ''a''), KInt 0] = Inr (JInt 7)
   \<and> safe_get (JObj [(ustr ''a'', JArr [JInt 7])]) [KStr (ustr ''a''), KInt 0] JNull = Inr (JInt 7)
   \<and> nested_lookup (JObj [(ustr ''a'', JArr [JInt 7])]) [KStr (ustr ''a''), KInt 1] = Inl IndexError
   \<and> safe_get (JObj [(ustr ''a'', JArr [JInt 7])]) [KStr (ustr ''a''), KInt 1] JNull = Inr JNull
   \<and> safe_get_default (JObj [(ustr ''a'', JArr [JInt 7])]) [KStr (ustr ''b''), KInt 0]
       = Inr (JStr (ustr ''Not available''))"
proof -
  let ?d = "JObj [(ustr ''a'', JArr [JInt 7])]"
  have ok: "nested_lookup ?d [KStr (ustr ''a''), KInt 0] = Inr (JInt 7)"
    by (simp add: ustr_def py_index_def)
  have bad: "nested_lookup ?d [KStr (ustr ''a''), KInt 1] = Inl IndexError"
    by (simp add: ustr_def py_index_def)
  have missing: "nested_lookup ?d [KStr (ustr ''b''), KInt 0] = Inl KeyError"
    by (simp add: ustr_def)
  from ok bad missing
    safe_get_total [of ?d "[KStr (ustr ''a''), KInt 0]" JNull]
    safe_get_total [of ?d "[KStr (ustr ''a''), KInt 1]" JNull]
    safe_get_total [of ?d "[KStr (ustr ''b''), KInt 0]" JNull]
  show ?thesis by blast
qed

section \<open>Properties of the dedup key\<close>

lemma takeWhile_absent: "sep \<notin> set s \<Longrightarrow> takeWhile (\<lambda>c. c \<noteq> sep) s = s"
  by (induction s) auto

lemma takeWhile_first: "sep \<notin> set a \<Longrightarrow> takeWhile (\<lambda>c. c \<noteq> sep) (a @ sep # b) = a"
  by (induction a) auto

lemma key_no_separator:
  "ampersand \<notin> set link \<Longrightarrow> get_link_unique_key link = link"
  by (simp add: get_link_unique_key_def py_split1_def takeWhile_absent)

lemma key_before_separator:
  "ampersand \<notin> set a \<Longrightarrow> get_link_unique_key (a @ ampersand # b) = a"
  by (simp add: get_link_unique_key_def py_split1_def takeWhile_first)

text \<open>
  C2. The dedup key of a link is the part before its first \<^verbatim>\<open>&\<close> (the whole link when
  there is none); two links that agree up to their first \<^verbatim>\<open>&\<close> have the same key, whatever
  follows it.
\<close>

theorem dedup_key_is_prefix_before_first_ampersand:
  "(ampersand \<notin> set link \<longrightarrow> get_link_unique_key link = link)
   \<and> (ampersand \<notin> set a \<longrightarrow> get_link_unique_key (a @ ampersand # b) = a)
   \<and> (ampersand \<notin> set a \<longrightarrow>
        get_link_unique_key (a @ ampersand # b) = get_link_unique_key (a @ ampersand # c)
        \<and> get_link_unique_key (a @ ampersand # b) = get_link_unique_key a)"
  by (simp add: key_no_separator key_before_separator)

theorem dedup_key_is_prefix_before_first_ampersand_witness:
  "get_link_unique_key (ustr ''https://www.goofish.com/item?id=42'')
     = ustr ''https://www.goofish.com/item?id=42''
   \<and> get_link_unique_key (ustr ''https://www.goofish.com/item?id=42'' @ ampersand # ustr ''spm=a&x=1'')
     = ustr ''https://www.goofish.com/item?id=42''
   \<and> get_link_unique_key (ustr ''https://www.goofish.com/item?id=42'' @ ampersand # ustr ''spm=a&x=1'')
     = get_link_unique_key (ustr ''https://www.goofish.com/item?id=42'' @ ampersand # ustr ''categoryId=7'')"
proof -
  have free: "ampersand \<notin> set (ustr ''https://www.goofish.com/item?id=42'')"
    by (simp add: ustr_def ampersand_def)
  from free
    dedup_key_is_prefix_before_first_ampersand
      [of "ustr ''https://www.goofish.com/item?id=42''"
          "ustr ''https://www.goofish.com/item?id=42''" "ustr ''spm=a&x=1''" "ustr ''categoryId=7''"]
  show ?thesis by blast
qed

declare digits_of_nat.simps [simp del]

section \<open>Properties of the rounding\<close>

lemma pow2_powi: "pow2 e = 2 powi e"
  by (simp add: pow2_def power_int_def inverse_eq_divide power_one_over)

lemma pow2_pos: "0 < pow2 e"
  by (simp add: pow2_powi)

lemma pow2_mono: "e \<le> e' \<Longrightarrow> pow2 e \<le> pow2 e'"
  by (simp add: pow2_powi power_int_increasing)

lemma pow2_diff: "pow2 (a - b) = pow2 a / pow2 b"
  by (simp add: pow2_powi power_int_diff)

lemma pow2_nat: "0 \<le> e \<Longrightarrow> pow2 e = 2 ^ nat e"
  by (simp add: pow2_def)

lemma floor_log2_bounds:
  assumes "0 < q"
  shows "pow2 (floor_log2 q) \<le> q \<and> q < pow2 (floor_log2 q + 1)"
proof -
  obtain a b where ab: "quotient_of q = (a, b)" by (cases "quotient_of q")
  have bpos: "0 < b" using ab quotient_of_denom_pos by blast
  have q: "q = of_int a / of_int b" using ab quotient_of_div by blast
  have apos: "0 < a" using assms bpos q by (simp add: zero_less_divide_iff)
  define la where "la = bitlen a"
  define lb where "lb = bitlen b"
  have la: "2 ^ nat (la - 1) \<le> a" "a < 2 ^ nat la" and la1: "1 \<le> la"
    using bitlen_bounds [OF apos] apos by (auto simp: la_def bitlen_alt_def)
  have lb: "2 ^ nat (lb - 1) \<le> b" "b < 2 ^ nat lb" and lb1: "1 \<le> lb"
    using bitlen_bounds [OF bpos] bpos by (auto simp: lb_def bitlen_alt_def)
  have "(of_int (2 ^ nat (la - 1)) :: rat) \<le> of_int a"
    using la(1) by (rule of_int_le_iff [THEN iffD2])
  then have ra1: "pow2 (la - 1) \<le> of_int a" using la1 by (simp add: pow2_nat)
  have "(of_int a :: rat) < of_int (2 ^ nat la)"
    using la(2) by (rule of_int_less_iff [THEN iffD2])
  then have ra2: "(of_int a :: rat) < pow2 la" using la1 by (simp add: pow2_nat)
  have "(of_int (2 ^ nat (lb - 1)) :: rat) \<le> of_int b"
    using lb(1) by (rule of_int_le_iff [THEN iffD2])
  then have rb1: "pow2 (lb - 1) \<le> of_int b" using lb1 by (simp add: pow2_nat)
  have "(of_int b :: rat) < of_int (2 ^ nat lb)"
    using lb(2) by (rule of_int_less_iff [THEN iffD2])
  then have rb2: "(of_int b :: rat) < pow2 lb" using lb1 by (simp add: pow2_nat)
  have up: "q < pow2 (la - lb + 1)"
  proof -
    have "q < pow2 la / of_int b"
      unfolding q using ra2 bpos by (simp add: divide_strict_right_mono)
    also have "\<dots> \<le> pow2 la / pow2 (lb - 1)"
      using rb1 pow2_pos [of la] pow2_pos [of "lb - 1"] by (simp add: frac_le)
    also have "\<dots> = pow2 (la - lb + 1)"
      by (simp flip: pow2_diff) (simp add: algebra_simps)
    finally show ?thesis .
  qed
  have low: "pow2 (la - lb - 1) \<le> q"
  proof -
    have "pow2 (la - lb - 1) = pow2 (la - 1) / pow2 lb"
      by (simp flip: pow2_diff) (simp add: algebra_simps)
    also have "\<dots> \<le> of_int a / pow2 lb"
      using ra1 pow2_pos [of lb] by (simp add: divide_right_mono)
    also have "\<dots> \<le> of_int a / of_int b"
      using rb2 apos bpos by (simp add: frac_le)
    finally show ?thesis by (simp add: q)
  qed
  show ?thesis
    using up low ab by (auto simp: floor_log2_def Let_def la_def lb_def not_le)
qed

lemma floor_log2_unique:
  assumes "pow2 e \<le> q" "q < pow2 (e + 1)"
  shows "floor_log2 q = e"
proof -
  have "0 < q" using assms(1) pow2_pos [of e] by simp
  from floor_log2_bounds [OF this]
  have b: "pow2 (floor_log2 q) \<le> q" "q < pow2 (floor_log2 q + 1)" by simp_all
  have "\<not> floor_log2 q < e"
  proof
    assume "floor_log2 q < e"
    then have "pow2 (floor_log2 q + 1) \<le> pow2 e" by (simp add: pow2_mono)
    with b(2) assms(1) show False by simp
  qed
  moreover have "\<not> e < floor_log2 q"
  proof
    assume "e < floor_log2 q"
    then have "pow2 (e + 1) \<le> pow2 (floor_log2 q)" by (simp add: pow2_mono)
    with b(1) assms(2) show False by simp
  qed
  ultimately show ?thesis by simp
qed

lemma round_half_even_near:
  assumes "\<bar>q - of_int z\<bar> < 1 / 2"
  shows "round_half_even q = z"
proof (cases "of_int z \<le> q")
  case True
  then have "\<lfloor>q\<rfloor> = z" using assms by (intro floor_unique) auto
  then show ?thesis using assms True by (simp add: round_half_even_def Let_def)
next
  case False
  then have "\<lfloor>q\<rfloor> = z - 1" using assms by (intro floor_unique) auto
  then show ?thesis using assms False by (auto simp: round_half_even_def Let_def)
qed

lemma round_half_even_of_int: "round_half_even (of_int z) = z"
  by (rule round_half_even_near) simp

lemma fl_certificate:
  assumes "pow2 e \<le> \<bar>q\<bar>" "\<bar>q\<bar> < pow2 (e + 1)" "- 1022 \<le> e"
    and "\<bar>\<bar>q\<bar> / pow2 (e - 52) - of_int m\<bar> < 1 / 2"
  shows "fl q = sgn q * of_int m * pow2 (e - 52)"
proof -
  have "q \<noteq> 0" using assms(1) pow2_pos [of e] by auto
  moreover have "floor_log2 \<bar>q\<bar> = e" using assms(1,2) by (rule floor_log2_unique)
  ultimately show ?thesis
    using assms(3) round_half_even_near [OF assms(4)] by (simp add: fl_def Let_def max_def)
qed

lemma fl_of_int:
  assumes "\<bar>n\<bar> < 2 ^ 53"
  shows "fl (of_int n) = of_int n"
proof (cases "n = 0")
  case True
  then show ?thesis by (simp add: fl_def)
next
  case False
  define a :: rat where "a = \<bar>of_int n\<bar>"
  define e where "e = floor_log2 a"
  have a1: "1 \<le> a" using False by (simp add: a_def flip: of_int_abs)
  have "a = of_int \<bar>n\<bar>" by (simp add: a_def)
  also have "\<dots> < of_int (2 ^ 53)" using assms by (rule of_int_less_iff [THEN iffD2])
  finally have a53: "a < pow2 53" by (simp add: pow2_def)
  have b: "pow2 e \<le> a" "a < pow2 (e + 1)"
    using floor_log2_bounds [of a] a1 by (simp_all add: e_def)
  have e0: "0 \<le> e"
  proof (rule ccontr)
    assume "\<not> 0 \<le> e"
    then have "pow2 (e + 1) \<le> pow2 0" by (intro pow2_mono) simp
    with b(2) a1 show False by (simp add: pow2_def)
  qed
  have e52: "e \<le> 52"
  proof (rule ccontr)
    assume "\<not> e \<le> 52"
    then have "pow2 53 \<le> pow2 e" by (intro pow2_mono) simp
    with b(1) a53 show False by simp
  qed
  have ulp: "pow2 (e - 52) = 1 / 2 ^ nat (52 - e)"
    using e52 by (cases "e = 52") (simp_all add: pow2_def)
  have "a / pow2 (e - 52) = of_int (\<bar>n\<bar> * 2 ^ nat (52 - e))"
    by (simp add: ulp a_def)
  then have r: "round_half_even (a / pow2 (e - 52)) = \<bar>n\<bar> * 2 ^ nat (52 - e)"
    by (simp only: round_half_even_of_int)
  have "fl (of_int n) = sgn (of_int n) * of_int (\<bar>n\<bar> * 2 ^ nat (52 - e)) * pow2 (e - 52)"
    using False e0 r by (simp add: fl_def Let_def max_def flip: a_def e_def)
  also have "\<dots> = sgn (of_int n) * \<bar>of_int n\<bar>"
    by (simp add: ulp)
  also have "\<dots> = of_int n"
    by (simp add: sgn_if abs_if)
  finally show ?thesis .
qed

section \<open>Properties of the registration duration\<close>

lemma days_in_month: "DAYS_IN_MONTH = 487 / 16"
proof -
  have "fl (1461 / 48) = sgn (1461 / 48) * of_int 8567394603630592 * pow2 (4 - 52)"
    by (rule fl_certificate) (simp_all add: pow2_def)
  then show ?thesis by (simp add: DAYS_IN_MONTH_def DAYS_IN_YEAR_def pow2_def)
qed

lemma fl_zero: "fl 0 = 0"
  by (simp add: fl_def)

lemma round_half_even_zero: "round_half_even 0 = 0"
  using round_half_even_of_int [of 0] by simp

lemma int_to_float_small: "\<bar>n\<bar> < 2 ^ 53 \<Longrightarrow> int_to_float n = Inr (of_int n)"
proof -
  assume a: "\<bar>n\<bar> < 2 ^ 53"
  then have "\<bar>of_int n :: rat\<bar> = of_int \<bar>n\<bar>" by simp
  also have "\<dots> < of_int (2 ^ 53)" using a by (rule of_int_less_iff [THEN iffD2])
  finally have "\<bar>of_int n :: rat\<bar> < 2 ^ 1024" by simp
  then show ?thesis using a by (simp add: int_to_float_def fl_of_int)
qed

lemma unknown_if_not_positive:
  "int_instance v = None \<or> (\<exists>n. int_instance v = Some n \<and> n \<le> 0)
   \<Longrightarrow> format_registration_days v = Inr (ustr ''Unknown'')"
  by (auto simp: format_registration_days_def)

lemma years_only_if_no_remainder:
  assumes "0 < n" "int_to_float n = Inr x" "registration_remaining_days x = Inr 0"
    and "1 \<le> registration_years x"
  shows "format_registration_days (JInt n)
         = Inr (ustr ''On Xianyu for '' @ py_str_int (registration_years x) @ ustr '' years'')"
  using assms
  by (simp add: format_registration_days_def bind_err_def fl_zero round_half_even_zero
      duration_phrase_def Let_def)

lemma years_400: "registration_years 400 = 1"
proof -
  have "fl (1600 / 1461) = sgn (1600 / 1461) * of_int 4932073513889660 * pow2 (0 - 52)"
    by (rule fl_certificate) (simp_all add: pow2_def)
  then have f: "fl (400 / DAYS_IN_YEAR) = 1233018378472415 / 1125899906842624"
    by (simp add: DAYS_IN_YEAR_def pow2_def)
  show ?thesis
    unfolding registration_years_def f by (rule floor_unique) simp_all
qed

lemma remaining_400: "registration_remaining_days 400 = Inr (139 / 4)"
proof -
  have p: "fl (1461 / 4) = 1461 / 4"
  proof -
    have "fl (1461 / 4) = sgn (1461 / 4) * of_int (1461 * 2 ^ 42) * pow2 (8 - 52)"
      by (rule fl_certificate) (simp_all add: pow2_def)
    then show ?thesis by (simp add: pow2_def)
  qed
  have r: "fl (139 / 4) = 139 / 4"
  proof -
    have "fl (139 / 4) = sgn (139 / 4) * of_int (139 * 2 ^ 45) * pow2 (5 - 52)"
      by (rule fl_certificate) (simp_all add: pow2_def)
    then show ?thesis by (simp add: pow2_def)
  qed
  show ?thesis
    by (simp add: registration_remaining_days_def years_400 DAYS_IN_YEAR_def p r)
qed

lemma months_400: "round_half_even (fl ((139 / 4) / DAYS_IN_MONTH)) = 1"
proof -
  have "fl (556 / 487) = sgn (556 / 487) * of_int 5141686638229971 * pow2 (0 - 52)"
    by (rule fl_certificate) (simp_all add: pow2_def)
  then have f: "fl ((139 / 4) / DAYS_IN_MONTH) = 5141686638229971 / 4503599627370496"
    by (simp add: days_in_month pow2_def)
  show ?thesis
    unfolding f by (rule round_half_even_near) simp
qed

lemma py_str_int_digit: "0 \<le> i \<Longrightarrow> i < 10 \<Longrightarrow> py_str_int i = [48 + nat i]"
  by (simp add: py_str_int_def digits_of_nat.simps)

lemma format_400:
  "format_registration_days (JInt 400) = Inr (ustr ''On Xianyu for 1 years and 1 months'')"
proof -
  have "int_to_float 400 = Inr 400" using int_to_float_small [of 400] by simp
  moreover have "round_half_even (fl (139 / (4 * DAYS_IN_MONTH))) = 1"
    using months_400 by simp
  ultimately show ?thesis
    by (simp add: format_registration_days_def bind_err_def remaining_400 years_400
        duration_phrase_def py_str_int_digit ustr_def Let_def)
qed

lemma whole_years:
  assumes "1 \<le> k" "1461 * k < 2 ^ 53"
  shows "int_to_float (1461 * k) = Inr (of_int (1461 * k))"
    and "registration_years (of_int (1461 * k)) = 4 * k"
    and "registration_remaining_days (of_int (1461 * k)) = Inr 0"
proof -
  have small: "\<bar>1461 * k\<bar> < 2 ^ 53" "\<bar>4 * k\<bar> < 2 ^ 53" using assms by simp_all
  show "int_to_float (1461 * k) = Inr (of_int (1461 * k))"
    using small(1) by (rule int_to_float_small)
  have quot: "(of_int (1461 * k) :: rat) / DAYS_IN_YEAR = of_int (4 * k)"
    by (simp add: DAYS_IN_YEAR_def)
  show years: "registration_years (of_int (1461 * k)) = 4 * k"
    unfolding registration_years_def quot using small(2) by (simp only: fl_of_int floor_of_int)
  have prod: "(of_int (4 * k) :: rat) * DAYS_IN_YEAR = of_int (1461 * k)"
    by (simp add: DAYS_IN_YEAR_def)
  have "(of_int (1461 * k) :: rat) < of_int (2 ^ 53)"
    using assms(2) by (rule of_int_less_iff [THEN iffD2])
  then have fin: "\<not> (2 :: rat) ^ 1024 \<le> of_int (1461 * k)" by simp
  show "registration_remaining_days (of_int (1461 * k)) = Inr 0"
    unfolding registration_remaining_days_def years prod Let_def
    using fin small(1) by (simp only: fl_of_int if_False diff_self fl_zero)
qed

lemma format_whole_years:
  assumes "1 \<le> k" "1461 * k < 2 ^ 53"
  shows "format_registration_days (JInt (1461 * k))
         = Inr (ustr ''On Xianyu for '' @ py_str_int (4 * k) @ ustr '' years'')"
  using years_only_if_no_remainder [OF _ whole_years(1) whole_years(3), OF _ assms assms]
    assms(1) whole_years(2) [OF assms]
  by simp

text \<open>
  C9. A day count that is not an \<^verbatim>\<open>int\<close>, or is 0 or negative, gives "Unknown"; 400 days
  give the years-and-months phrase with 1 year and 1 month; a day count whose remaining
  days after the whole years are exactly 0, with at least one year, gives the years-only
  phrase, which is the case for every multiple of 1461 days (4 years of 365.25 days)
  below \<open>2^53\<close>.
\<close>

theorem registration_duration_phrases:
  "(int_instance v = None \<or> (\<exists>n. int_instance v = Some n \<and> n \<le> 0)
      \<longrightarrow> format_registration_days v = Inr (ustr ''Unknown''))
   \<and> format_registration_days (JInt 400) = Inr (ustr ''On Xianyu for 1 years and 1 months'')
   \<and> (0 < n \<and> int_to_float n = Inr x \<and> registration_remaining_days x = Inr 0
        \<and> 1 \<le> registration_years x
      \<longrightarrow> format_registration_days (JInt n)
           = Inr (ustr ''On Xianyu for '' @ py_str_int (registration_years x) @ ustr '' years''))
   \<and> (1 \<le> k \<and> 1461 * k < 2 ^ 53
      \<longrightarrow> format_registration_days (JInt (1461 * k))
           = Inr (ustr ''On Xianyu for '' @ py_str_int (4 * k) @ ustr '' years''))"
  using unknown_if_not_positive [of v] format_400 years_only_if_no_remainder [of n x]
    format_whole_years [of k]
  by blast

theorem registration_duration_phrases_witness:
  "format_registration_days (JInt (- 3)) = Inr (ustr ''Unknown'')
   \<and> format_registration_days (JInt 400) = Inr (ustr ''On Xianyu for 1 years and 1 months'')
   \<and> int_to_float 1461 = Inr 1461
   \<and> registration_remaining_days 1461 = Inr 0
   \<and> registration_years 1461 = 4
   \<and> format_registration_days (JInt 1461) = Inr (ustr ''On Xianyu for 4 years'')
   \<and> format_registration_days (JInt 2922) = Inr (ustr ''On Xianyu for 8 years'')"
proof -
  have c: "int_to_float 1461 = Inr 1461" using whole_years(1) [of 1] by simp
  have y: "registration_years 1461 = 4" using whole_years(2) [of 1] by simp
  have r: "registration_remaining_days 1461 = Inr 0" using whole_years(3) [of 1] by simp
  have d: "py_str_int 4 = [52]" "py_str_int 8 = [56]" by (simp_all add: py_str_int_digit)
  from registration_duration_phrases [of "JInt (- 3)" 1461 1461 2] c y r d
  show ?thesis by (simp add: ustr_def)
qed

section \<open>Properties of the reputation aggregation\<close>

lemma safe_get_returns: "\<exists>v. safe_get data keys dflt = Inr v"
  by (simp add: safe_get_as_lookup)

lemma card_role_tag_returns: "card_role_tag c = Inr (role_tag_of c)"
proof -
  obtain d where d: "safe_get c [KStr (ustr ''cardData'')] (JObj []) = Inr d"
    using safe_get_returns by blast
  obtain v where v: "safe_get d [KStr (ustr ''rateTagList''), KInt 0, KStr (ustr ''text'')] (JStr []) = Inr v"
    using safe_get_returns by blast
  have "card_role_tag c = Inr v"
    unfolding card_role_tag_def d bind_err_def using v by simp
  then show ?thesis by (simp add: role_tag_of_def)
qed

lemma card_rate_type_returns: "card_rate_type c = Inr (rate_of c)"
proof -
  obtain d where d: "safe_get c [KStr (ustr ''cardData'')] (JObj []) = Inr d"
    using safe_get_returns by blast
  obtain v where v: "safe_get_default d [KStr (ustr ''rate'')] = Inr v"
    unfolding safe_get_default_def using safe_get_returns by blast
  have "card_rate_type c = Inr v"
    unfolding card_rate_type_def d bind_err_def using v by simp
  then show ?thesis by (simp add: rate_of_def)
qed

lemma py_in_searchable: "searchable v \<Longrightarrow> py_in m v = Inr (has_marker m v)"
  by (cases v) (auto simp: searchable_def has_marker_def)

lemma py_in_not_searchable: "\<not> searchable v \<Longrightarrow> py_in m v = Inl TypeError"
  by (cases v) (auto simp: searchable_def)

lemma py_or_values: "py_or (Inr a) (Inr b) = Inr (a \<or> b)"
  by (cases a) (simp_all add: py_or_def)

lemma py_or_raises: "py_or (Inl e) b = Inl e"
  by (simp add: py_or_def)

lemma tally_card_searchable:
  assumes "searchable (role_tag_of c)"
  shows "tally_card c t =
     Inr (if is_seller_card c then
            t\<lparr>seller_total := seller_total t + 1,
               seller_positive := (if py_eq_one (rate_of c) then seller_positive t + 1
                                   else seller_positive t)\<rparr>
          else if is_buyer_card c then
            t\<lparr>buyer_total := buyer_total t + 1,
               buyer_positive := (if py_eq_one (rate_of c) then buyer_positive t + 1
                                  else buyer_positive t)\<rparr>
          else t)"
  unfolding tally_card_def card_role_tag_returns card_rate_type_returns
  by (simp add: bind_err_def py_in_searchable [OF assms] py_or_values is_seller_card_def
      is_buyer_card_def)

lemma tally_card_raises:
  "\<not> searchable (role_tag_of c) \<Longrightarrow> tally_card c t = Inl TypeError"
  unfolding tally_card_def card_role_tag_returns card_rate_type_returns
  by (simp add: bind_err_def py_in_not_searchable py_or_raises)

lemma tally_cards_counts:
  assumes "\<forall>c \<in> set cards. searchable (role_tag_of c)"
  shows "\<exists>t'. tally_cards cards t = Inr t'
           \<and> seller_total t' = seller_total t + seller_cards cards
           \<and> seller_positive t' = seller_positive t + positive_seller_cards cards"
  using assms
proof (induction cards arbitrary: t)
  case Nil
  show ?case by (simp add: seller_cards_def positive_seller_cards_def)
next
  case (Cons c cards)
  have s: "searchable (role_tag_of c)" using Cons.prems by simp
  obtain t1 where t1: "tally_card c t = Inr t1"
    and n1: "seller_total t1 = seller_total t + (if is_seller_card c then 1 else 0)"
    and p1: "seller_positive t1
             = seller_positive t + (if is_seller_card c \<and> py_eq_one (rate_of c) then 1 else 0)"
    by (simp add: tally_card_searchable [OF s])
  from Cons.IH [of t1] Cons.prems
  obtain t' where "tally_cards cards t1 = Inr t'"
    "seller_total t' = seller_total t1 + seller_cards cards"
    "seller_positive t' = seller_positive t1 + positive_seller_cards cards"
    by auto
  then show ?case
    using t1 n1 p1 by (simp add: bind_err_def seller_cards_def positive_seller_cards_def)
qed

lemma reputation_seller_rate:
  assumes "\<forall>c \<in> set cards. searchable (role_tag_of c)"
  shows "\<exists>d. calculate_reputation_from_ratings cards = Inr d
           \<and> map_of d (ustr ''positive_rate_as_seller'')
               = Some (JStr (rate_text (positive_seller_cards cards) (seller_cards cards)))"
proof -
  from tally_cards_counts [OF assms,
      of "\<lparr>seller_total = 0, seller_positive = 0, buyer_total = 0, buyer_positive = 0\<rparr>"]
  obtain t' where t: "tally_cards cards
        \<lparr>seller_total = 0, seller_positive = 0, buyer_total = 0, buyer_positive = 0\<rparr> = Inr t'"
    "seller_total t' = seller_cards cards" "seller_positive t' = positive_seller_cards cards"
    by auto
  show ?thesis
    unfolding calculate_reputation_from_ratings_def t(1) bind_err_def
    by (simp add: t(2,3) ustr_def)
qed

lemma positive_le_seller: "positive_seller_cards cards \<le> seller_cards cards"
  unfolding positive_seller_cards_def seller_cards_def
  by (induction cards) auto

lemma rate_text_none: "rate_text p 0 = ustr ''N/A''"
  by (simp add: rate_text_def)

lemma fl_half: "fl (1 / 2) = 1 / 2"
proof -
  have "fl (1 / 2) = sgn (1 / 2) * of_int (2 ^ 52) * pow2 (- 1 - 52)"
    by (rule fl_certificate) (simp_all add: pow2_def)
  then show ?thesis by (simp add: pow2_def)
qed

lemma format_2f_of_int: "0 \<le> n \<Longrightarrow> format_2f (of_int n) = py_str_int n @ ustr ''.00''"
proof -
  assume "0 \<le> n"
  have "round_half_even (of_int n * 100) = n * 100"
    using round_half_even_of_int [of "n * 100"] by simp
  then show ?thesis
    by (simp add: format_2f_def Let_def digits_of_nat.simps ustr_def)
qed

lemma rate_text_half: "rate_text 1 2 = ustr ''50.00%''"
proof -
  have "fl (50 :: rat) = 50" using fl_of_int [of 50] by simp
  moreover have "format_2f 50 = ustr ''50.00''"
    using format_2f_of_int [of 50] by (simp add: py_str_int_def digits_of_nat.simps ustr_def)
  ultimately show ?thesis by (simp add: rate_text_def fl_half ustr_def)
qed

lemma rate_text_third: "rate_text 1 3 = ustr ''33.33%''"
proof -
  have a: "fl (1 / 3) = 6004799503160661 / 18014398509481984"
  proof -
    have "fl (1 / 3) = sgn (1 / 3) * of_int 6004799503160661 * pow2 (- 2 - 52)"
      by (rule fl_certificate) (simp_all add: pow2_def)
    then show ?thesis by (simp add: pow2_def)
  qed
  have b: "fl (150119987579016525 / 4503599627370496) = 2345624805922133 / 70368744177664"
  proof -
    have "fl (150119987579016525 / 4503599627370496)
          = sgn (150119987579016525 / 4503599627370496) * of_int 4691249611844266 * pow2 (5 - 52)"
      by (rule fl_certificate) (simp_all add: pow2_def)
    then show ?thesis by (simp add: pow2_def)
  qed
  have c: "round_half_even (2345624805922133 / 70368744177664 * 100) = 3333"
    by (rule round_half_even_near) simp
  have f: "format_2f (2345624805922133 / 70368744177664) = ustr ''33.33''"
    unfolding format_2f_def c Let_def
    by (simp add: py_str_int_def digits_of_nat.simps ustr_def)
  have m: "fl (1 / 3) * 100 = 150119987579016525 / 4503599627370496"
    unfolding a by simp
  have m2: "fl (fl (1 / 3) * 100) = 2345624805922133 / 70368744177664"
    unfolding m by (rule b)
  have r: "rate_text 1 3 = format_2f (fl (fl (1 / 3) * 100)) @ ustr ''%''"
    by (simp add: rate_text_def)
  show ?thesis
    unfolding r m2 f by (simp add: ustr_def)
qed

text \<open>
  C6. When every card's role tag supports \<^verbatim>\<open>in\<close> (a string, as the rating API delivers it,
  or a missing tag, which reads as the empty string), the aggregation returns a dict whose
  \<^verbatim>\<open>positive_rate_as_seller\<close> is "N/A" when no card is a seller card, and otherwise the
  \<^verbatim>\<open>.2f\<close> rendering of the float \<open>S / N * 100\<close> followed by a percent sign, where \<open>N\<close> counts the
  cards whose role tag contains a seller marker and \<open>S\<close> those of them whose rate equals 1.
\<close>

theorem seller_rate_from_counts:
  "(\<forall>c \<in> set cards. searchable (role_tag_of c)) \<longrightarrow>
     (\<exists>d. calculate_reputation_from_ratings cards = Inr d
        \<and> map_of d (ustr ''positive_rate_as_seller'')
            = Some (JStr
                (if seller_cards cards = 0 then ustr ''N/A''
                 else format_2f
                        (fl (fl (of_nat (positive_seller_cards cards) / of_nat (seller_cards cards))
                             * 100))
                      @ ustr ''%'')))"
proof
  assume "\<forall>c \<in> set cards. searchable (role_tag_of c)"
  from reputation_seller_rate [OF this]
  show "\<exists>d. calculate_reputation_from_ratings cards = Inr d
        \<and> map_of d (ustr ''positive_rate_as_seller'')
            = Some (JStr
                (if seller_cards cards = 0 then ustr ''N/A''
                 else format_2f
                        (fl (fl (of_nat (positive_seller_cards cards) / of_nat (seller_cards cards))
                             * 100))
                      @ ustr ''%''))"
    by (auto simp: rate_text_def)
qed

lemma sample_role_tags:
  "role_tag_of (rating_card (JStr seller_marker) r) = JStr seller_marker"
  "role_tag_of (rating_card (JStr (ustr ''Seller'')) r) = JStr (ustr ''Seller'')"
  "role_tag_of (rating_card (JStr (ustr ''Buyer'')) r) = JStr (ustr ''Buyer'')"
  "role_tag_of (rating_card JNull r) = JNull"
  "rate_of (rating_card t r) = r"
  by (simp_all add: rating_card_def role_tag_of_def rate_of_def card_role_tag_def
      card_rate_type_def safe_get_default_def bind_err_def py_index_def ustr_def)

theorem seller_rate_from_counts_witness:
  "seller_cards [rating_card (JStr seller_marker) (JInt 1),
                 rating_card (JStr (ustr ''Seller'')) (JInt (- 1)),
                 rating_card (JStr (ustr ''Buyer'')) (JInt 1)] = 2
   \<and> positive_seller_cards [rating_card (JStr seller_marker) (JInt 1),
                 rating_card (JStr (ustr ''Seller'')) (JInt (- 1)),
                 rating_card (JStr (ustr ''Buyer'')) (JInt 1)] = 1
   \<and> (\<exists>d. calculate_reputation_from_ratings
               [rating_card (JStr seller_marker) (JInt 1),
                rating_card (JStr (ustr ''Seller'')) (JInt (- 1)),
                rating_card (JStr (ustr ''Buyer'')) (JInt 1)] = Inr d
          \<and> map_of d (ustr ''positive_rate_as_seller'') = Some (JStr (ustr ''50.00%'')))"
proof -
  let ?cards = "[rating_card (JStr seller_marker) (JInt 1),
                 rating_card (JStr (ustr ''Seller'')) (JInt (- 1)),
                 rating_card (JStr (ustr ''Buyer'')) (JInt 1)]"
  have s: "\<forall>c \<in> set ?cards. searchable (role_tag_of c)"
    by (simp add: sample_role_tags searchable_def)
  have sel: "is_seller_card (rating_card (JStr seller_marker) (JInt 1))"
    "is_seller_card (rating_card (JStr (ustr ''Seller'')) (JInt (- 1)))"
    "\<not> is_seller_card (rating_card (JStr (ustr ''Buyer'')) (JInt 1))"
    unfolding is_seller_card_def has_marker_def sample_role_tags
    by (simp_all add: seller_marker_def starts_with_def ustr_def)
  have n: "seller_cards ?cards = 2"
    by (simp add: seller_cards_def sel)
  have p: "positive_seller_cards ?cards = 1"
    by (simp add: positive_seller_cards_def sel sample_role_tags)
  have r: "format_2f (fl (fl (of_nat 1 / of_nat 2) * 100)) @ ustr ''%'' = ustr ''50.00%''"
    using rate_text_half by (simp add: rate_text_def)
  from seller_rate_from_counts [of ?cards] s n p r
  show ?thesis by (simp del: of_nat_numeral)
qed

theorem seller_rate_counterexample:
  "seller_cards [rating_card JNull (JInt 1)] = 0
   \<and> calculate_reputation_from_ratings [rating_card JNull (JInt 1)] = Inl TypeError"
proof -
  have "\<not> is_seller_card (rating_card JNull (JInt 1))"
    by (simp add: is_seller_card_def has_marker_def sample_role_tags)
  moreover have "tally_card (rating_card JNull (JInt 1)) t = Inl TypeError" for t
    by (rule tally_card_raises) (simp add: sample_role_tags searchable_def)
  ultimately show ?thesis
    by (simp add: seller_cards_def calculate_reputation_from_ratings_def bind_err_def)
qed

section \<open>Properties of the response parser\<close>

lemma py_find_absent: "c \<notin> set s \<Longrightarrow> py_find c s = None"
  by (induction s) auto

lemma py_find_first: "c \<notin> set pre \<Longrightarrow> py_find c (pre @ c # rest) = Some (length pre)"
  by (induction pre) auto

lemma py_rfind_absent: "c \<notin> set s \<Longrightarrow> py_rfind c s = None"
  by (simp add: py_rfind_def py_find_absent)

lemma py_rfind_last: "c \<notin> set post \<Longrightarrow> py_rfind c (pre @ c # post) = Some (length pre)"
  using py_find_first [of c "rev post" "rev pre"] by (simp add: py_rfind_def)

lemma extract_without_braces:
  "lbrace \<notin> set s \<or> rbrace \<notin> set s \<Longrightarrow> extract_json_text s = s"
  by (auto simp: extract_json_text_def py_find_absent py_rfind_absent split: option.splits)

lemma extract_between_braces:
  assumes "lbrace \<notin> set pre" "rbrace \<notin> set post"
  shows "extract_json_text (pre @ lbrace # mid @ rbrace # post) = lbrace # mid @ [rbrace]"
proof -
  have f: "py_find lbrace (pre @ lbrace # mid @ rbrace # post) = Some (length pre)"
    using assms(1) by (rule py_find_first)
  have "py_rfind rbrace ((pre @ lbrace # mid) @ rbrace # post) = Some (length (pre @ lbrace # mid))"
    using assms(2) by (rule py_rfind_last)
  then have r: "py_rfind rbrace (pre @ lbrace # mid @ rbrace # post) = Some (length pre + length mid + 1)"
    by simp
  show ?thesis
    unfolding extract_json_text_def f r by (simp add: py_slice_def)
qed

text \<open>
  C4. The text that is decoded runs from the first \<^verbatim>\<open>{\<close> to the last \<^verbatim>\<open>}\<close> of the response:
  when no \<^verbatim>\<open>{\<close> stands before the object and no \<^verbatim>\<open>}\<close> after it, the result is that of
  decoding the object alone; a response without \<^verbatim>\<open>{\<close> or without \<^verbatim>\<open>}\<close> is decoded whole.
\<close>

theorem parse_ai_response_decodes_brace_span:
  "(lbrace \<notin> set pre \<and> rbrace \<notin> set post \<longrightarrow>
      parse_ai_response loads (pre @ lbrace # mid @ rbrace # post) = loads (lbrace # mid @ [rbrace]))
   \<and> (lbrace \<notin> set s \<or> rbrace \<notin> set s \<longrightarrow> parse_ai_response loads s = loads s)"
  by (simp add: parse_ai_response_def extract_between_braces extract_without_braces)

theorem parse_ai_response_decodes_brace_span_witness:
  "parse_ai_response decoded_text (ustr ''Sure, here it is: '' @ lbrace # [] @ rbrace # ustr '' Done.'')
     = Inr (JStr (ustr ''{}''))
   \<and> parse_ai_response decoded_text (ustr ''I cannot answer.'')
     = Inr (JStr (ustr ''I cannot answer.''))"
proof -
  have a: "lbrace \<notin> set (ustr ''Sure, here it is: '')" "rbrace \<notin> set (ustr '' Done.'')"
    "lbrace \<notin> set (ustr ''I cannot answer.'')"
    by (simp_all add: lbrace_def rbrace_def ustr_def)
  have b: "lbrace # [] @ [rbrace] = ustr ''{}''"
    by (simp add: lbrace_def rbrace_def ustr_def)
  from a b
    parse_ai_response_decodes_brace_span
      [of "ustr ''Sure, here it is: ''" "ustr '' Done.''" decoded_text "[]"
          "ustr ''I cannot answer.''"]
  show ?thesis by (simp add: decoded_text_def)
qed

theorem parse_ai_response_counterexample:
  "first_balanced_span (ustr ''ok {} :-}'') = Some (ustr ''{}'')
   \<and> extract_json_text (ustr ''ok {} :-}'') = ustr ''{} :-}''
   \<and> parse_ai_response decoded_text (ustr ''ok {} :-}'') = Inr (JStr (ustr ''{} :-}''))
   \<and> parse_ai_response decoded_text (ustr ''[1]'') = Inr (JStr (ustr ''[1]''))"
  by (simp add: first_balanced_span_def extract_json_text_def parse_ai_response_def py_rfind_def
      py_slice_def lbrace_def rbrace_def ustr_def decoded_text_def)

section \<open>Properties of the history load\<close>

lemma history_line_key_shaped:
  assumes "line_shaped loads line"
  shows "history_line_key loads line
         = Inr (case loads line of
                  Inr r \<Rightarrow> map_option get_link_unique_key (record_link r)
                | Inl e \<Rightarrow> None)"
proof (cases "loads line")
  case (Inl e)
  then show ?thesis using assms by (simp add: history_line_key_def line_shaped_def)
next
  case (Inr r)
  then have rs: "record_shaped r" using assms by (simp add: line_shaped_def)
  then obtain d where d: "r = JObj d" by (cases r) (simp_all add: record_shaped_def)
  show ?thesis
  proof (cases "map_of d (ustr ''item_info'')")
    case None
    then show ?thesis using Inr d
      by (simp add: history_line_key_def bind_err_def record_link_def)
  next
    case (Some info)
    then obtain i where i: "info = JObj i"
      using rs d by (cases info) (simp_all add: record_shaped_def)
    show ?thesis
    proof (cases "map_of i (ustr ''item_link'')")
      case None
      then show ?thesis using Inr d Some i
        by (simp add: history_line_key_def bind_err_def record_link_def)
    next
      case (Some v)
      then have "link_shaped v" using rs d i \<open>map_of d (ustr ''item_info'') = Some info\<close>
        by (simp add: record_shaped_def)
      then show ?thesis using Inr d i Some \<open>map_of d (ustr ''item_info'') = Some info\<close>
        by (cases v)
           (auto simp: history_line_key_def bind_err_def record_link_def link_shaped_def)
    qed
  qed
qed

lemma load_history_shaped:
  assumes "\<forall>line \<in> set lines. line_shaped loads line" and "ending \<noteq> ReadDecodeError"
  shows "load_history loads lines ending processed = Inr (processed \<union> history_keys loads lines)"
  using assms(1)
proof (induction lines arbitrary: processed)
  case Nil
  show ?case using assms(2) by (cases ending) (simp_all add: history_keys_def List.map_filter_simps)
next
  case (Cons line lines)
  have k: "history_line_key loads line
           = Inr (case loads line of
                    Inr r \<Rightarrow> map_option get_link_unique_key (record_link r)
                  | Inl e \<Rightarrow> None)"
    using Cons.prems by (intro history_line_key_shaped) simp
  have rest: "\<forall>line \<in> set lines. line_shaped loads line" using Cons.prems by simp
  show ?case
    unfolding load_history.simps k bind_err_def
    by (auto simp: Cons.IH [OF rest] history_keys_def List.map_filter_simps
        split: option.splits sum.splits)
qed



lemma load_history_undecodable:
  "\<exists>e. load_history loads lines ReadDecodeError processed = Inl e"
proof (induction lines arbitrary: processed)
  case Nil
  show ?case by simp
next
  case (Cons line lines)
  show ?case
    using Cons.IH by (cases "history_line_key loads line") (simp_all add: bind_err_def)
qed

text \<open>
  For every history file that is read to its end (or up to an \<^verbatim>\<open>IOError\<close>) and whose lines
  either fail to decode as JSON or decode to records of the shape \<^verbatim>\<open>save_to_jsonl\<close> writes,
  the load completes: it returns the set of the dedup keys of the links the lines commit,
  and a line that fails to decode adds nothing.
\<close>

lemma load_history_completes:
  "(\<forall>line \<in> set lines. line_shaped loads line) \<and> ending \<noteq> ReadDecodeError \<longrightarrow>
     load_history loads lines ending {} = Inr (history_keys loads lines)
     \<and> (\<forall>line. loads line = Inl JSONDecodeError \<longrightarrow>
           history_line_key loads line = Inr None)"
  by (simp add: load_history_shaped history_line_key_def)

lemma example_lines:
  "example_loads (ustr ''{\"item_info\": {\"item_link\": \"https://www.goofish.com/item?id=1&spm=a\"}}'' @ [10])
     = Inr (JObj [(ustr ''item_info'',
                   JObj [(ustr ''item_link'', JStr (ustr ''https://www.goofish.com/item?id=1&spm=a''))])])"
  "example_loads (ustr ''{\"item_info\": {\"item_li'') = Inl JSONDecodeError"
  "example_loads (ustr ''[]'' @ [10]) = Inr (JArr [])"
  by (simp_all add: example_loads_def ustr_def)




text \<open>
  C8. The load does not complete for every content of the history file. A file whose
  bytes are not all UTF-8, as after a write torn inside a multi-byte character, makes
  the read raise \<^verbatim>\<open>UnicodeDecodeError\<close>, which no handler catches: whatever the lines read
  before, the load raises, and so does \<^verbatim>\<open>scrape_xianyu\<close> before it opens the browser. So
  does a line that decodes to a value without \<^verbatim>\<open>get\<close>, such as \<^verbatim>\<open>[]\<close>.
\<close>

theorem history_load_aborts:
  "(\<exists>e. load_history loads lines ReadDecodeError {} = Inl e)
   \<and> (\<exists>e. scrape_xianyu lib cfg lines ReadDecodeError pre turn = Inl e)
   \<and> load_history example_loads
         [ustr ''{\"item_info\": {\"item_link\": \"https://www.goofish.com/item?id=1&spm=a\"}}'' @ [10]]
         ReadDecodeError {}
       = Inl UnicodeDecodeError
   \<and> load_history example_loads [ustr ''[]'' @ [10]] EndOfFile {} = Inl AttributeError"
proof (intro conjI)
  show "\<exists>e. load_history loads lines ReadDecodeError {} = Inl e"
    by (rule load_history_undecodable)
  obtain e where "load_history (json_loads lib) lines ReadDecodeError {} = Inl e"
    using load_history_undecodable by blast
  then show "\<exists>e. scrape_xianyu lib cfg lines ReadDecodeError pre turn = Inl e"
    by (simp add: scrape_xianyu_def bind_err_def)
  have s: "\<forall>line \<in> set [ustr ''{\"item_info\": {\"item_link\": \"https://www.goofish.com/item?id=1&spm=a\"}}'' @ [10]].
             line_shaped example_loads line"
    unfolding line_shaped_def by (simp add: example_lines record_shaped_def link_shaped_def)
  show "load_history example_loads
         [ustr ''{\"item_info\": {\"item_link\": \"https://www.goofish.com/item?id=1&spm=a\"}}'' @ [10]]
         ReadDecodeError {}
       = Inl UnicodeDecodeError"
    unfolding load_history.simps history_line_key_shaped [OF s [rule_format, OF list.set_intros(1)]]
    by (simp add: bind_err_def)
  show "load_history example_loads [ustr ''[]'' @ [10]] EndOfFile {} = Inl AttributeError"
    by (simp add: history_line_key_def example_lines bind_err_def)
qed

section \<open>Properties of the task run\<close>

lemma emit_fields [simp]:
  "effects (emit evs st) = effects st @ evs"
  "processed_links (emit evs st) = processed_links st"
  "processed_item_count (emit evs st) = processed_item_count st"
  "appended (emit evs st) = appended st"
  by (simp_all add: emit_def)

lemma emit_emit: "emit b (emit a st) = emit (a @ b) st"
  by (simp add: emit_def)

lemma randint_range: "lo \<le> hi \<Longrightarrow> lo \<le> randint lo hi draw \<and> randint lo hi draw \<le> hi"
proof -
  assume le: "lo \<le> hi"
  have "draw mod (hi - lo + 1) < hi - lo + 1" by (rule mod_less_divisor) simp
  then have "draw mod (hi - lo + 1) \<le> hi - lo" by linarith
  then show ?thesis unfolding randint_def using le by linarith
qed

lemma run_items_append:
  "run_items lib cfg (xs @ ys) st =
     (case run_items lib cfg xs st of
        (NextItem, st1) \<Rightarrow> run_items lib cfg ys st1
      | (StopScraping, st1) \<Rightarrow> (StopScraping, st1)
      | (TaskError, st1) \<Rightarrow> (TaskError, st1))"
proof (induction xs arbitrary: st)
  case Nil
  show ?case by simp
next
  case (Cons x xs)
  show ?case
  proof (cases "process_item lib cfg x st")
    case (Pair f st1)
    then show ?thesis using Cons.IH [of st1] by (cases f) simp_all
  qed
qed

text \<open>The conditions under which an item of the listing is fetched.\<close>

lemma process_item_blocked:
  assumes "\<not> (debug_limit cfg > 0 \<and> int (processed_item_count st) \<ge> debug_limit cfg)"
    and "item_key (fst it) = Inr k" "title_sliceable (fst it)" "k \<notin> processed_links st"
    and "detail (snd it) = DetailOk dj" "block_detected lib dj = Inr True"
  shows "process_item lib cfg it st =
     (StopScraping,
      emit [RandomSleep 3 6, DetailFetch k, Sleep (randint 300 600 (cooldown_draw (snd it))),
            RandomSleep 2 4] st)"
  using assms by (auto simp: process_item_def Let_def emit_emit)

lemma run_pages_stop:
  "items \<noteq> [] \<Longrightarrow> run_items lib cfg items st = (StopScraping, st')
   \<Longrightarrow> run_pages lib cfg turn k n (Listing items) st = st'"
  by simp

text \<open>
  C7. When the payload of a detail response carries the validation-failure code, the
  task sleeps between 300 and 600 seconds and stops: the rest of the page and the later
  pages are not processed, the counter and the appended records are those before the
  signal.
\<close>

theorem block_code_stops_task:
  "\<not> (debug_limit cfg > 0 \<and> int (processed_item_count st) \<ge> debug_limit cfg)
   \<and> item_key (fst it) = Inr k \<and> title_sliceable (fst it) \<and> k \<notin> processed_links st
   \<and> detail (snd it) = DetailOk dj \<and> block_detected lib dj = Inr True
   \<and> run_items lib cfg before st0 = (NextItem, st)
   \<longrightarrow>
     run_pages lib cfg turn pages_left n (Listing (before @ it # rest)) st0
       = emit [RandomSleep 3 6, DetailFetch k, Sleep (randint 300 600 (cooldown_draw (snd it))),
               RandomSleep 2 4] st
     \<and> 300 \<le> randint 300 600 (cooldown_draw (snd it))
     \<and> randint 300 600 (cooldown_draw (snd it)) \<le> 600
     \<and> processed_item_count
           (run_pages lib cfg turn pages_left n (Listing (before @ it # rest)) st0)
         = processed_item_count st
     \<and> appended (run_pages lib cfg turn pages_left n (Listing (before @ it # rest)) st0)
         = appended st"
proof (intro impI, elim conjE)
  assume a: "\<not> (debug_limit cfg > 0 \<and> int (processed_item_count st) \<ge> debug_limit cfg)"
    "item_key (fst it) = Inr k" "title_sliceable (fst it)" "k \<notin> processed_links st"
    "detail (snd it) = DetailOk dj" "block_detected lib dj = Inr True"
    and b: "run_items lib cfg before st0 = (NextItem, st)"
  let ?st' = "emit [RandomSleep 3 6, DetailFetch k,
                    Sleep (randint 300 600 (cooldown_draw (snd it))), RandomSleep 2 4] st"
  have "process_item lib cfg it st = (StopScraping, ?st')"
    using a by (rule process_item_blocked)
  then have "run_items lib cfg (before @ it # rest) st0 = (StopScraping, ?st')"
    using b by (simp add: run_items_append)
  then have r: "run_pages lib cfg turn pages_left n (Listing (before @ it # rest)) st0 = ?st'"
    by (intro run_pages_stop) simp_all
  show "run_pages lib cfg turn pages_left n (Listing (before @ it # rest)) st0 = ?st'
     \<and> 300 \<le> randint 300 600 (cooldown_draw (snd it))
     \<and> randint 300 600 (cooldown_draw (snd it)) \<le> 600
     \<and> processed_item_count
           (run_pages lib cfg turn pages_left n (Listing (before @ it # rest)) st0)
         = processed_item_count st
     \<and> appended (run_pages lib cfg turn pages_left n (Listing (before @ it # rest)) st0)
         = appended st"
    unfolding r using randint_range [of 300 600] by simp
qed

lemma example_item_key:
  "item_key (example_item (ustr ''https://www.goofish.com/item?id=2&spm=b''))
   = Inr (ustr ''https://www.goofish.com/item?id=2'')"
  "title_sliceable (example_item link)"
  by (simp_all add: item_key_def example_item_def bind_err_def get_link_unique_key_def
      py_split1_def ampersand_def title_sliceable_def ustr_def)

lemma example_block_check:
  "block_detected example_lib blocked_payload = Inr True"
  "block_detected example_lib plain_payload = Inr False"
  by (simp_all add: block_detected_def example_lib_def blocked_payload_def plain_payload_def
      bind_err_def example_str_def starts_with_def ustr_def)

theorem block_code_stops_task_witness:
  "run_pages example_lib example_config (\<lambda>n. Turned (Listing [])) 3 1
     (Listing [(example_item (ustr ''https://www.goofish.com/item?id=2&spm=b''),
                example_env (DetailOk blocked_payload) service_rejects Written),
               (example_item (ustr ''https://www.goofish.com/item?id=3''),
                example_env (DetailOk plain_payload) service_rejects Written)])
     (fresh_state {})
   = emit [RandomSleep 3 6, DetailFetch (ustr ''https://www.goofish.com/item?id=2''), Sleep 307,
           RandomSleep 2 4] (fresh_state {})
   \<and> processed_item_count
       (run_pages example_lib example_config (\<lambda>n. Turned (Listing [])) 3 1
         (Listing [(example_item (ustr ''https://www.goofish.com/item?id=2&spm=b''),
                    example_env (DetailOk blocked_payload) service_rejects Written),
                   (example_item (ustr ''https://www.goofish.com/item?id=3''),
                    example_env (DetailOk plain_payload) service_rejects Written)])
         (fresh_state {})) = 0
   \<and> appended
       (run_pages example_lib example_config (\<lambda>n. Turned (Listing [])) 3 1
         (Listing [(example_item (ustr ''https://www.goofish.com/item?id=2&spm=b''),
                    example_env (DetailOk blocked_payload) service_rejects Written),
                   (example_item (ustr ''https://www.goofish.com/item?id=3''),
                    example_env (DetailOk plain_payload) service_rejects Written)])
         (fresh_state {})) = []"
proof -
  let ?it = "(example_item (ustr ''https://www.goofish.com/item?id=2&spm=b''),
              example_env (DetailOk blocked_payload) service_rejects Written)"
  let ?rest = "[(example_item (ustr ''https://www.goofish.com/item?id=3''),
                 example_env (DetailOk plain_payload) service_rejects Written)]"
  have h: "\<not> (debug_limit example_config > 0
             \<and> int (processed_item_count (fresh_state {})) \<ge> debug_limit example_config)"
    "ustr ''https://www.goofish.com/item?id=2'' \<notin> processed_links (fresh_state {})"
    "detail (snd ?it) = DetailOk blocked_payload"
    "run_items example_lib example_config [] (fresh_state {}) = (NextItem, fresh_state {})"
    by (simp_all add: example_config_def fresh_state_def example_env_def)
  have d: "randint 300 600 (cooldown_draw (snd ?it)) = 307"
    by (simp add: randint_def example_env_def)
  from block_code_stops_task
    [of example_config "fresh_state {}" ?it "ustr ''https://www.goofish.com/item?id=2''"
        blocked_payload example_lib "[]" "fresh_state {}" "\<lambda>n. Turned (Listing [])" 3 1 ?rest]
    h example_item_key example_block_check(1)
  show ?thesis unfolding d by (simp add: fresh_state_def)
qed

section \<open>Properties of the retried analysis\<close>

lemma retry_loop_attempts:
  "length (filter is_attempt (snd (retry_loop retries delay func i k))) \<le> k"
proof (induction k arbitrary: i)
  case 0
  show ?case by simp
next
  case (Suc k)
  show ?case
    using Suc.IH [of "Suc i"] by (cases "func i") simp_all
qed

lemma retry_loop_events:
  "ev \<in> set (snd (retry_loop retries delay func i k)) \<Longrightarrow> is_attempt ev \<or> ev = Sleep delay"
proof (induction k arbitrary: i)
  case 0
  then show ?case by simp
next
  case (Suc k)
  then show ?case
    by (cases "func i") (auto split: if_splits)
qed

lemma retry_loop_all_fail:
  "(\<forall>j. i \<le> j \<and> j < i + k \<longrightarrow> (\<exists>e. func j = Inl e))
   \<Longrightarrow> fst (retry_loop retries delay func i k) = JNull"
proof (induction k arbitrary: i)
  case 0
  show ?case by simp
next
  case (Suc k)
  obtain e where e: "func i = Inl e" using Suc.prems by force
  have "\<forall>j. Suc i \<le> j \<and> j < Suc i + k \<longrightarrow> (\<exists>e. func j = Inl e)" using Suc.prems by simp
  from Suc.IH [OF this] e show ?case by simp
qed

lemma retry_loop_succeeds:
  "i + k = retries \<Longrightarrow> j < k \<Longrightarrow> (\<forall>m < j. \<exists>e. func (i + m) = Inl e) \<Longrightarrow> func (i + j) = Inr v
   \<Longrightarrow> retry_loop retries delay func i k = (v, spaced_attempts delay i (Suc j))"
proof (induction j arbitrary: i k)
  case 0
  then obtain k' where "k = Suc k'" by (cases k) simp_all
  then show ?case using 0 by simp
next
  case (Suc j)
  then obtain k' where k: "k = Suc k'" by (cases k) simp_all
  obtain e where e: "func i = Inl e" using Suc.prems(3) [rule_format, of 0] by auto
  have "\<forall>m < j. \<exists>e. func (Suc i + m) = Inl e"
    using Suc.prems(3) [rule_format, of "Suc m" for m] by simp
  moreover have "func (Suc i + j) = Inr v" using Suc.prems(4) by simp
  ultimately have "retry_loop retries delay func (Suc i) k'
                   = (v, spaced_attempts delay (Suc i) (Suc j))"
    using Suc.prems(1,2) k by (intro Suc.IH) simp_all
  moreover have "i + 1 < retries" using Suc.prems(1,2) by simp
  ultimately show ?case using e k by simp
qed

lemma retry_loop_exhausted:
  "i + k = retries \<Longrightarrow> (\<forall>m < k. \<exists>e. func (i + m) = Inl e)
   \<Longrightarrow> retry_loop retries delay func i k = (JNull, spaced_attempts delay i k)"
proof (induction k arbitrary: i)
  case 0
  show ?case by simp
next
  case (Suc k)
  obtain e where e: "func i = Inl e" using Suc.prems(2) [rule_format, of 0] by auto
  have "\<forall>m < k. \<exists>e. func (Suc i + m) = Inl e"
    using Suc.prems(2) [rule_format, of "Suc m" for m] by simp
  then have "retry_loop retries delay func (Suc i) k = (JNull, spaced_attempts delay (Suc i) k)"
    using Suc.prems(1) by (intro Suc.IH) simp_all
  moreover have "i + 1 < retries \<longleftrightarrow> k \<noteq> 0" using Suc.prems(1) by auto
  ultimately show ?case using e by simp
qed

lemma five_spaced_attempts:
  "spaced_attempts 10 0 5
   = [Attempt 0, Sleep 10, Attempt 1, Sleep 10, Attempt 2, Sleep 10, Attempt 3, Sleep 10, Attempt 4]"
  by (simp add: eval_nat_numeral)

lemma get_ai_analysis_all_fail:
  assumes "\<forall>i < 5. \<exists>e. ai_attempt lib prompt api i = Inl e"
  shows "get_ai_analysis lib prompt api
         = (JNull, [Attempt 0, Sleep 10, Attempt 1, Sleep 10, Attempt 2, Sleep 10, Attempt 3,
                    Sleep 10, Attempt 4])"
  unfolding get_ai_analysis_def retry_on_failure_def five_spaced_attempts [symmetric]
  using assms by (intro retry_loop_exhausted) simp_all

lemma decode_failure_propagates:
  "truthy prompt \<Longrightarrow> api i = Inr (JStr content)
   \<Longrightarrow> json_loads lib (extract_json_text content) = Inl JSONDecodeError
   \<Longrightarrow> ai_attempt lib prompt api i = Inl JSONDecodeError"
  by (simp add: ai_attempt_def parse_ai_response_def)

lemma analyse_all_fail:
  assumes "truthy (ai_prompt_text cfg)"
    and "\<forall>i < 5. \<exists>e. ai_attempt lib (ai_prompt_text cfg) (ai_api env) i = Inl e"
  shows "analyse lib cfg env fr
         = (Inr (dict_set fr (ustr ''ai_analysis'') ai_error_marker, False),
            [Attempt 0, Sleep 10, Attempt 1, Sleep 10, Attempt 2, Sleep 10, Attempt 3,
             Sleep 10, Attempt 4])"
  using assms(1) by (simp add: analyse_def get_ai_analysis_all_fail [OF assms(2)] Let_def)

lemma process_item_new:
  assumes "\<not> (debug_limit cfg > 0 \<and> int (processed_item_count st) \<ge> debug_limit cfg)"
    and "item_key (fst it) = Inr k" "title_sliceable (fst it)" "k \<notin> processed_links st"
    and "detail (snd it) = DetailOk dj" "block_detected lib dj = Inr False"
  shows "process_item lib cfg it st =
     (NextItem,
      emit [RandomSleep 2 4]
        (process_detail lib cfg (snd it) k (fst it) dj (emit [RandomSleep 3 6, DetailFetch k] st)))"
  using assms by (auto simp: process_item_def Let_def)

text \<open>
  C5. The analysis is attempted at most 5 times, with a sleep of 10 seconds and nothing
  else between two attempts: when the attempts before attempt \<open>j\<close> fail and attempt \<open>j\<close>
  returns, its result is returned after \<open>j + 1\<close> attempts spaced by the delay. A response
  that fails to decode makes its attempt fail with \<^verbatim>\<open>JSONDecodeError\<close>. When all 5 attempts
  fail, the call returns \<^verbatim>\<open>None\<close> after the five attempts and the four delays, the item's
  record gets the error marker under \<^verbatim>\<open>ai_analysis\<close> and is handed to \<^verbatim>\<open>save_to_jsonl\<close>, which
  appends it when the write succeeds, the key is marked, and the item loop goes on with
  the next item.
\<close>

theorem analysis_failure_is_recorded:
  "length (filter is_attempt (snd (get_ai_analysis lib prompt api))) \<le> 5
   \<and> (\<forall>ev \<in> set (snd (get_ai_analysis lib prompt api)). is_attempt ev \<or> ev = Sleep 10)
   \<and> (j < 5 \<and> (\<forall>m < j. \<exists>e. ai_attempt lib prompt api m = Inl e)
        \<and> ai_attempt lib prompt api j = Inr v
      \<longrightarrow> get_ai_analysis lib prompt api = (v, spaced_attempts 10 0 (Suc j)))
   \<and> (truthy prompt \<and> api i = Inr (JStr content)
        \<and> json_loads lib (extract_json_text content) = Inl JSONDecodeError
      \<longrightarrow> ai_attempt lib prompt api i = Inl JSONDecodeError)
   \<and> (\<not> (debug_limit cfg > 0 \<and> int (processed_item_count st) \<ge> debug_limit cfg)
        \<and> item_key (fst it) = Inr k \<and> title_sliceable (fst it) \<and> k \<notin> processed_links st
        \<and> detail (snd it) = DetailOk dj \<and> block_detected lib dj = Inr False
        \<and> fst (assemble_record cfg (snd it) (fst it) dj) = Inr fr
        \<and> truthy (ai_prompt_text cfg)
        \<and> (\<forall>i < 5. \<exists>e. ai_attempt lib (ai_prompt_text cfg) (ai_api (snd it)) i = Inl e)
      \<longrightarrow> get_ai_analysis lib (ai_prompt_text cfg) (ai_api (snd it))
            = (JNull, [Attempt 0, Sleep 10, Attempt 1, Sleep 10, Attempt 2, Sleep 10, Attempt 3,
                       Sleep 10, Attempt 4])
          \<and> fst (process_item lib cfg it st) = NextItem
          \<and> run_items lib cfg (it # rest) st
              = run_items lib cfg rest (snd (process_item lib cfg it st))
          \<and> (save (snd it) \<noteq> MakedirsFailed \<longrightarrow>
                effects (snd (process_item lib cfg it st))
                  = effects st @ [RandomSleep 3 6, DetailFetch k]
                    @ snd (assemble_record cfg (snd it) (fst it) dj)
                    @ [Attempt 0, Sleep 10, Attempt 1, Sleep 10, Attempt 2, Sleep 10, Attempt 3,
                       Sleep 10, Attempt 4,
                       SaveCall (JObj (dict_set fr (ustr ''ai_analysis'') ai_error_marker))
                         (save (snd it) = Written),
                       MarkProcessed k, RandomSleep 15 30, RandomSleep 2 4])
          \<and> (save (snd it) = Written \<longrightarrow>
                appended (snd (process_item lib cfg it st))
                  = appended st @ [JObj (dict_set fr (ustr ''ai_analysis'') ai_error_marker)]
                \<and> SaveCall (JObj (dict_set fr (ustr ''ai_analysis'') ai_error_marker)) True
                    \<in> set (effects (snd (process_item lib cfg it st)))))"
proof (intro conjI impI ballI)
  show "length (filter is_attempt (snd (get_ai_analysis lib prompt api))) \<le> 5"
    unfolding get_ai_analysis_def retry_on_failure_def by (rule retry_loop_attempts)
next
  fix ev assume "ev \<in> set (snd (get_ai_analysis lib prompt api))"
  then show "is_attempt ev \<or> ev = Sleep 10"
    unfolding get_ai_analysis_def retry_on_failure_def by (rule retry_loop_events)
next
  assume "j < 5 \<and> (\<forall>m < j. \<exists>e. ai_attempt lib prompt api m = Inl e)
        \<and> ai_attempt lib prompt api j = Inr v"
  then show "get_ai_analysis lib prompt api = (v, spaced_attempts 10 0 (Suc j))"
    unfolding get_ai_analysis_def retry_on_failure_def
    by (intro retry_loop_succeeds) simp_all
next
  assume "truthy prompt \<and> api i = Inr (JStr content)
        \<and> json_loads lib (extract_json_text content) = Inl JSONDecodeError"
  then show "ai_attempt lib prompt api i = Inl JSONDecodeError"
    by (simp add: decode_failure_propagates)
next
  assume a: "\<not> (debug_limit cfg > 0 \<and> int (processed_item_count st) \<ge> debug_limit cfg)
        \<and> item_key (fst it) = Inr k \<and> title_sliceable (fst it) \<and> k \<notin> processed_links st
        \<and> detail (snd it) = DetailOk dj \<and> block_detected lib dj = Inr False
        \<and> fst (assemble_record cfg (snd it) (fst it) dj) = Inr fr
        \<and> truthy (ai_prompt_text cfg)
        \<and> (\<forall>i < 5. \<exists>e. ai_attempt lib (ai_prompt_text cfg) (ai_api (snd it)) i = Inl e)"
  then have p: "process_item lib cfg it st =
     (NextItem,
      emit [RandomSleep 2 4]
        (process_detail lib cfg (snd it) k (fst it) dj (emit [RandomSleep 3 6, DetailFetch k] st)))"
    by (intro process_item_new) simp_all
  from a have an: "analyse lib cfg (snd it) fr
         = (Inr (dict_set fr (ustr ''ai_analysis'') ai_error_marker, False),
            [Attempt 0, Sleep 10, Attempt 1, Sleep 10, Attempt 2, Sleep 10, Attempt 3,
             Sleep 10, Attempt 4])"
    by (intro analyse_all_fail) simp_all
  from a show "get_ai_analysis lib (ai_prompt_text cfg) (ai_api (snd it))
            = (JNull, [Attempt 0, Sleep 10, Attempt 1, Sleep 10, Attempt 2, Sleep 10, Attempt 3,
                       Sleep 10, Attempt 4])"
    by (intro get_ai_analysis_all_fail) simp_all
  show "fst (process_item lib cfg it st) = NextItem" by (simp add: p)
  show "run_items lib cfg (it # rest) st
          = run_items lib cfg rest (snd (process_item lib cfg it st))"
    by (simp add: p)
  { assume w: "save (snd it) \<noteq> MakedirsFailed"
    show "effects (snd (process_item lib cfg it st))
            = effects st @ [RandomSleep 3 6, DetailFetch k]
              @ snd (assemble_record cfg (snd it) (fst it) dj)
              @ [Attempt 0, Sleep 10, Attempt 1, Sleep 10, Attempt 2, Sleep 10, Attempt 3,
                 Sleep 10, Attempt 4,
                 SaveCall (JObj (dict_set fr (ustr ''ai_analysis'') ai_error_marker))
                   (save (snd it) = Written),
                 MarkProcessed k, RandomSleep 15 30, RandomSleep 2 4]"
      using a w
      by (cases "save (snd it)")
         (simp_all add: p process_detail_def an save_and_commit_def notification_effects_def) }
  { assume w: "save (snd it) = Written"
    show "appended (snd (process_item lib cfg it st))
            = appended st @ [JObj (dict_set fr (ustr ''ai_analysis'') ai_error_marker)]"
      using a w
      by (simp add: p process_detail_def an save_and_commit_def notification_effects_def)
    show "SaveCall (JObj (dict_set fr (ustr ''ai_analysis'') ai_error_marker)) True
            \<in> set (effects (snd (process_item lib cfg it st)))"
      using a w
      by (simp add: p process_detail_def an save_and_commit_def notification_effects_def) }
qed

lemma example_assembled:
  "assemble_record example_config (example_env d api s) (example_item link) plain_payload
   = (Inr (example_record link), [])"
  by (simp add: assemble_record_def detail_fields_def bind_err_def plain_payload_def
      example_item_def example_env_def example_config_def example_record_def
      safe_get_default_def not_available_def format_registration_days_def with_images_def
      safe_get_caught_def download_effects_def profile_effects_def ustr_def)

lemma example_attempts:
  "ai_attempt example_lib (JStr (ustr ''Judge this listing.'')) service_down i = Inl APIError"
  "ai_attempt example_lib (JStr (ustr ''Judge this listing.'')) service_garbles i
   = Inl JSONDecodeError"
  "ai_attempt example_lib (JStr (ustr ''Judge this listing.'')) service_recovers 0
   = Inl JSONDecodeError"
  "ai_attempt example_lib (JStr (ustr ''Judge this listing.'')) service_recovers (Suc 0)
   = Inr (JObj [(ustr ''is_recommended'', JBool False), (ustr ''reason'', JStr (ustr ''test''))])"
  by (simp_all add: ai_attempt_def service_down_def service_garbles_def service_recovers_def
      parse_ai_response_def example_lib_def example_loads_def extract_json_text_def py_rfind_def
      py_slice_def lbrace_def rbrace_def ustr_def)

theorem analysis_failure_is_recorded_witness:
  "get_ai_analysis example_lib (JStr (ustr ''Judge this listing.'')) service_recovers
     = (JObj [(ustr ''is_recommended'', JBool False), (ustr ''reason'', JStr (ustr ''test''))],
        [Attempt 0, Sleep 10, Attempt 1])
   \<and> ai_attempt example_lib (JStr (ustr ''Judge this listing.'')) service_recovers 0
       = Inl JSONDecodeError
   \<and> get_ai_analysis example_lib (JStr (ustr ''Judge this listing.'')) service_garbles
       = (JNull, [Attempt 0, Sleep 10, Attempt 1, Sleep 10, Attempt 2, Sleep 10, Attempt 3,
                  Sleep 10, Attempt 4])
   \<and> fst (process_item example_lib example_config
            (example_item (ustr ''https://www.goofish.com/item?id=2&spm=b''),
             example_env (DetailOk plain_payload) service_garbles Written)
            (fresh_state {})) = NextItem
   \<and> effects (snd (process_item example_lib example_config
            (example_item (ustr ''https://www.goofish.com/item?id=2&spm=b''),
             example_env (DetailOk plain_payload) service_garbles Written)
            (fresh_state {})))
       = [RandomSleep 3 6, DetailFetch (ustr ''https://www.goofish.com/item?id=2''),
          Attempt 0, Sleep 10, Attempt 1, Sleep 10, Attempt 2, Sleep 10, Attempt 3, Sleep 10,
          Attempt 4,
          SaveCall (JObj (dict_set (example_record (ustr ''https://www.goofish.com/item?id=2&spm=b''))
                            (ustr ''ai_analysis'') ai_error_marker)) True,
          MarkProcessed (ustr ''https://www.goofish.com/item?id=2''),
          RandomSleep 15 30, RandomSleep 2 4]
   \<and> appended (snd (process_item example_lib example_config
            (example_item (ustr ''https://www.goofish.com/item?id=2&spm=b''),
             example_env (DetailOk plain_payload) service_garbles Written)
            (fresh_state {})))
       = [JObj (dict_set (example_record (ustr ''https://www.goofish.com/item?id=2&spm=b''))
                  (ustr ''ai_analysis'') ai_error_marker)]"
proof -
  let ?link = "ustr ''https://www.goofish.com/item?id=2&spm=b''"
  let ?it = "(example_item ?link, example_env (DetailOk plain_payload) service_garbles Written)"
  let ?p = "JStr (ustr ''Judge this listing.'')"
  let ?v = "JObj [(ustr ''is_recommended'', JBool False), (ustr ''reason'', JStr (ustr ''test''))]"
  have h: "\<not> (debug_limit example_config > 0
             \<and> int (processed_item_count (fresh_state {})) \<ge> debug_limit example_config)"
    "ustr ''https://www.goofish.com/item?id=2'' \<notin> processed_links (fresh_state {})"
    "detail (snd ?it) = DetailOk plain_payload"
    "truthy (ai_prompt_text example_config)" "truthy ?p"
    "save (snd ?it) = Written"
    "appended (fresh_state {}) = []" "effects (fresh_state {}) = []"
    by (simp_all add: example_config_def fresh_state_def example_env_def ustr_def)
  have g: "service_recovers 0 = Inr (JStr (ustr ''{\"is_recommended\": fal''))"
    by (simp add: service_recovers_def)
  have l: "json_loads example_lib (extract_json_text (ustr ''{\"is_recommended\": fal''))
           = Inl JSONDecodeError"
    by (simp add: example_lib_def example_loads_def extract_json_text_def py_rfind_def lbrace_def
        rbrace_def ustr_def)
  have as: "fst (assemble_record example_config (snd ?it) (fst ?it) plain_payload)
            = Inr (example_record ?link)"
    "snd (assemble_record example_config (snd ?it) (fst ?it) plain_payload) = []"
    by (simp_all add: example_assembled)
  have f: "\<forall>i < 5. \<exists>e. ai_attempt example_lib (ai_prompt_text example_config)
                         (ai_api (snd ?it)) i = Inl e"
    by (simp add: example_config_def example_env_def example_attempts)
  have r: "(1::nat) < 5" "\<forall>m < (1::nat). \<exists>e. ai_attempt example_lib ?p service_recovers m = Inl e"
    "ai_attempt example_lib ?p service_recovers 1 = Inr ?v"
    by (simp_all add: example_attempts)
  have sp: "spaced_attempts 10 0 (Suc 1) = [Attempt 0, Sleep 10, Attempt 1]"
    by simp
  have api: "ai_prompt_text example_config = ?p" "ai_api (snd ?it) = service_garbles"
    by (simp_all add: example_config_def example_env_def)
  from analysis_failure_is_recorded
    [of example_lib ?p service_recovers 1 ?v 0 "ustr ''{\"is_recommended\": fal''" example_config
        "fresh_state {}" ?it "ustr ''https://www.goofish.com/item?id=2''" plain_payload
        "example_record ?link" "[]"]
    h g l as f r example_item_key example_block_check(2) example_attempts(3)
  show ?thesis unfolding sp api by simp
qed

section \<open>Properties of the commit of an item\<close>

lemma retry_events_inner:
  "ev \<in> set (snd (retry_on_failure retries delay func)) \<Longrightarrow> is_inner ev"
  using retry_loop_events [of ev retries delay func 0 retries]
  by (cases ev) (auto simp: retry_on_failure_def)

lemma analyse_events_inner:
  "ev \<in> set (snd (analyse lib cfg env fr)) \<Longrightarrow> is_inner ev"
  using retry_events_inner [of ev 5 10 "ai_attempt lib (ai_prompt_text cfg) (ai_api env)"]
  by (auto simp: analyse_def get_ai_analysis_def Let_def split: if_splits sum.splits)

lemma profile_events_inner: "ev \<in> set (profile_effects env) \<Longrightarrow> is_inner ev"
  unfolding profile_effects_def by (drule in_set_takeD) auto

lemma download_events_inner: "ev \<in> set (download_effects ds) \<Longrightarrow> is_inner ev"
  unfolding download_effects_def using retry_events_inner by auto

lemma assemble_events_inner:
  "ev \<in> set (snd (assemble_record cfg env item dj)) \<Longrightarrow> is_inner ev"
  using profile_events_inner [of ev env] download_events_inner [of ev]
  by (auto simp: assemble_record_def Let_def split: sum.splits prod.splits if_splits)

lemma notification_events_inner:
  "ev \<in> set (notification_effects env notify) \<Longrightarrow> is_inner ev"
  using retry_events_inner [of ev 3 5 "notify_api env"]
  by (auto simp: notification_effects_def split: if_splits)

lemma analyse_record:
  "fst (analyse lib cfg env fr) = Inr (rcd, n)
   \<Longrightarrow> rcd = fr \<or> (\<exists>a. rcd = dict_set fr (ustr ''ai_analysis'') a)"
  by (auto simp: analyse_def Let_def split: if_splits sum.splits)



lemma process_detail_shapes:
  "uncommitted st (process_detail lib cfg env k item dj st)
   \<or> (\<exists>fr rcd evs.
        fst (assemble_record cfg env item dj) = Inr fr
      \<and> (rcd = fr \<or> (\<exists>a. rcd = dict_set fr (ustr ''ai_analysis'') a))
      \<and> save env \<noteq> MakedirsFailed
      \<and> processed_links (process_detail lib cfg env k item dj st) = insert k (processed_links st)
      \<and> processed_item_count (process_detail lib cfg env k item dj st)
          = processed_item_count st + 1
      \<and> effects (process_detail lib cfg env k item dj st)
          = effects st @ evs @ [SaveCall (JObj rcd) (save env = Written), MarkProcessed k,
                                RandomSleep 15 30]
      \<and> (\<forall>ev \<in> set evs. is_inner ev)
      \<and> appended (process_detail lib cfg env k item dj st)
          = appended st @ (if save env = Written then [JObj rcd] else []))"
  (is "?A \<or> ?B")
proof (cases "fst (assemble_record cfg env item dj)")
  case (Inl e)
  then have ?A
    using assemble_events_inner [of _ cfg env item dj]
    by (auto simp: process_detail_def uncommitted_def)
  then show ?thesis ..
next
  case (Inr fr)
  show ?thesis
  proof (cases "fst (analyse lib cfg env fr)")
    case (Inl e)
    then have ?A
      using Inr assemble_events_inner [of _ cfg env item dj]
        analyse_events_inner [of _ lib cfg env fr]
      by (auto simp: process_detail_def uncommitted_def)
    then show ?thesis ..
  next
    case ok: (Inr res)
    obtain rcd n where res: "res = (rcd, n)" by (cases res)
    have r: "rcd = fr \<or> (\<exists>a. rcd = dict_set fr (ustr ''ai_analysis'') a)"
      using ok res by (intro analyse_record) simp
    let ?evs = "snd (assemble_record cfg env item dj) @ snd (analyse lib cfg env fr)
                @ notification_effects env n"
    have q: "\<forall>ev \<in> set ?evs. is_inner ev"
      using assemble_events_inner [of _ cfg env item dj]
        analyse_events_inner [of _ lib cfg env fr] notification_events_inner [of _ env n]
      by auto
    show ?thesis
    proof (cases "save env = MakedirsFailed")
      case True
      then have ?A
        using Inr ok res q
        by (auto simp: process_detail_def save_and_commit_def uncommitted_def)
      then show ?thesis ..
    next
      case False
      have "fst (assemble_record cfg env item dj) = Inr fr
      \<and> (rcd = fr \<or> (\<exists>a. rcd = dict_set fr (ustr ''ai_analysis'') a))
      \<and> save env \<noteq> MakedirsFailed
      \<and> processed_links (process_detail lib cfg env k item dj st) = insert k (processed_links st)
      \<and> processed_item_count (process_detail lib cfg env k item dj st)
          = processed_item_count st + 1
      \<and> effects (process_detail lib cfg env k item dj st)
          = effects st @ ?evs @ [SaveCall (JObj rcd) (save env = Written), MarkProcessed k,
                                RandomSleep 15 30]
      \<and> (\<forall>ev \<in> set ?evs. is_inner ev)
      \<and> appended (process_detail lib cfg env k item dj st)
          = appended st @ (if save env = Written then [JObj rcd] else [])"
        using Inr ok res r q False
        by (cases "save env") (simp_all add: process_detail_def save_and_commit_def)
      then have ?B by blast
      then show ?thesis ..
    qed
  qed
qed

lemma process_item_shapes:
  "(processed_links (snd (process_item lib cfg it st)) = processed_links st
      \<and> appended (snd (process_item lib cfg it st)) = appended st
      \<and> processed_item_count (snd (process_item lib cfg it st)) = processed_item_count st
      \<and> (\<exists>evs. effects (snd (process_item lib cfg it st)) = effects st @ evs
            \<and> (\<forall>ev \<in> set evs. is_inner ev
                  \<or> (\<exists>uk. ev = DetailFetch uk \<and> item_key (fst it) = Inr uk
                        \<and> uk \<notin> processed_links st))))
   \<or> (\<exists>uk dj fr rcd evs.
        item_key (fst it) = Inr uk \<and> uk \<notin> processed_links st
      \<and> detail (snd it) = DetailOk dj
      \<and> fst (assemble_record cfg (snd it) (fst it) dj) = Inr fr
      \<and> (rcd = fr \<or> (\<exists>a. rcd = dict_set fr (ustr ''ai_analysis'') a))
      \<and> save (snd it) \<noteq> MakedirsFailed
      \<and> fst (process_item lib cfg it st) = NextItem
      \<and> processed_links (snd (process_item lib cfg it st)) = insert uk (processed_links st)
      \<and> processed_item_count (snd (process_item lib cfg it st)) = processed_item_count st + 1
      \<and> effects (snd (process_item lib cfg it st))
          = effects st @ [RandomSleep 3 6, DetailFetch uk] @ evs
            @ [SaveCall (JObj rcd) (save (snd it) = Written), MarkProcessed uk,
               RandomSleep 15 30, RandomSleep 2 4]
      \<and> (\<forall>ev \<in> set evs. is_inner ev)
      \<and> appended (snd (process_item lib cfg it st))
          = appended st @ (if save (snd it) = Written then [JObj rcd] else []))"
  (is "?A \<or> ?B")
proof (cases "\<not> (debug_limit cfg > 0 \<and> int (processed_item_count st) \<ge> debug_limit cfg)
              \<and> (\<exists>uk dj. item_key (fst it) = Inr uk \<and> title_sliceable (fst it)
                    \<and> uk \<notin> processed_links st \<and> detail (snd it) = DetailOk dj
                    \<and> block_detected lib dj = Inr False)")
  case False
  then have ?A
    by (auto simp: process_item_def Let_def split: sum.splits detail_outcome.splits bool.splits)
  then show ?thesis ..
next
  case True
  then obtain uk dj where h:
    "\<not> (debug_limit cfg > 0 \<and> int (processed_item_count st) \<ge> debug_limit cfg)"
    "item_key (fst it) = Inr uk" "title_sliceable (fst it)" "uk \<notin> processed_links st"
    "detail (snd it) = DetailOk dj" "block_detected lib dj = Inr False"
    by blast
  let ?st1 = "emit [RandomSleep 3 6, DetailFetch uk] st"
  let ?d = "process_detail lib cfg (snd it) uk (fst it) dj ?st1"
  have p: "process_item lib cfg it st = (NextItem, emit [RandomSleep 2 4] ?d)"
    using h by (rule process_item_new)
  from process_detail_shapes [of ?st1 lib cfg "snd it" uk "fst it" dj]
  show ?thesis
  proof (rule disjE)
    assume "uncommitted ?st1 ?d"
    then obtain evs where u: "processed_links ?d = processed_links st" "appended ?d = appended st"
      "processed_item_count ?d = processed_item_count st"
      "effects ?d = effects st @ [RandomSleep 3 6, DetailFetch uk] @ evs"
      "\<forall>ev \<in> set evs. is_inner ev"
      by (auto simp: uncommitted_def)
    have "effects (emit [RandomSleep 2 4] ?d)
            = effects st @ ([RandomSleep 3 6, DetailFetch uk] @ evs @ [RandomSleep 2 4])"
      using u(4) by simp
    moreover have "\<forall>ev \<in> set ([RandomSleep 3 6, DetailFetch uk] @ evs @ [RandomSleep 2 4]).
        is_inner ev \<or> (\<exists>uk. ev = DetailFetch uk \<and> item_key (fst it) = Inr uk
                        \<and> uk \<notin> processed_links st)"
      using u(5) h(2,4) by auto
    ultimately have "\<exists>evs. effects (emit [RandomSleep 2 4] ?d) = effects st @ evs
        \<and> (\<forall>ev \<in> set evs. is_inner ev
              \<or> (\<exists>uk. ev = DetailFetch uk \<and> item_key (fst it) = Inr uk
                    \<and> uk \<notin> processed_links st))"
      by blast
    then have ?A unfolding p snd_conv using u(1,2,3) by simp
    then show ?thesis ..
  next
    assume "\<exists>fr rcd evs.
        fst (assemble_record cfg (snd it) (fst it) dj) = Inr fr
      \<and> (rcd = fr \<or> (\<exists>a. rcd = dict_set fr (ustr ''ai_analysis'') a))
      \<and> save (snd it) \<noteq> MakedirsFailed
      \<and> processed_links ?d = insert uk (processed_links ?st1)
      \<and> processed_item_count ?d = processed_item_count ?st1 + 1
      \<and> effects ?d = effects ?st1 @ evs @ [SaveCall (JObj rcd) (save (snd it) = Written),
                                          MarkProcessed uk, RandomSleep 15 30]
      \<and> (\<forall>ev \<in> set evs. is_inner ev)
      \<and> appended ?d = appended ?st1 @ (if save (snd it) = Written then [JObj rcd] else [])"
    then obtain fr rcd evs where a: "fst (assemble_record cfg (snd it) (fst it) dj) = Inr fr"
      "rcd = fr \<or> (\<exists>a. rcd = dict_set fr (ustr ''ai_analysis'') a)"
      "save (snd it) \<noteq> MakedirsFailed"
      "processed_links ?d = insert uk (processed_links ?st1)"
      "processed_item_count ?d = processed_item_count ?st1 + 1"
      "effects ?d = effects ?st1 @ evs @ [SaveCall (JObj rcd) (save (snd it) = Written),
                                          MarkProcessed uk, RandomSleep 15 30]"
      "\<forall>ev \<in> set evs. is_inner ev"
      "appended ?d = appended ?st1 @ (if save (snd it) = Written then [JObj rcd] else [])"
      by blast
    have ?B
      apply (rule exI [of _ uk], rule exI [of _ dj], rule exI [of _ fr], rule exI [of _ rcd],
          rule exI [of _ evs])
      unfolding p using h a by simp
    then show ?thesis ..
  qed
qed

lemma inner_not_commit:
  "is_inner ev \<Longrightarrow> ev \<noteq> SaveCall r ok \<and> ev \<noteq> MarkProcessed k \<and> ev \<noteq> DetailFetch k"
  by (cases ev) simp_all

text \<open>
  C3. A dedup key enters the processed set only at the end of the processing of its
  item: the detail was fetched, the record was assembled from the \<^verbatim>\<open>ok\<close> response,
  \<^verbatim>\<open>save_to_jsonl\<close> was called with it, and the insertion is the next effect, whether or
  not the line was written. An item whose processing ends without the insertion has
  appended nothing and has made no save call.
\<close>

theorem key_inserted_after_save_call:
  "(k \<in> processed_links (snd (process_item lib cfg it st)) \<and> k \<notin> processed_links st \<longrightarrow>
      (\<exists>dj fr rcd evs.
          item_key (fst it) = Inr k
        \<and> detail (snd it) = DetailOk dj
        \<and> fst (assemble_record cfg (snd it) (fst it) dj) = Inr fr
        \<and> (rcd = fr \<or> (\<exists>a. rcd = dict_set fr (ustr ''ai_analysis'') a))
        \<and> effects (snd (process_item lib cfg it st))
            = effects st @ [RandomSleep 3 6, DetailFetch k] @ evs
              @ [SaveCall (JObj rcd) (save (snd it) = Written), MarkProcessed k,
                 RandomSleep 15 30, RandomSleep 2 4]
        \<and> (\<forall>ev \<in> set evs. is_inner ev)
        \<and> appended (snd (process_item lib cfg it st))
            = appended st @ (if save (snd it) = Written then [JObj rcd] else [])))
   \<and> (processed_links (snd (process_item lib cfg it st)) = processed_links st \<longrightarrow>
        appended (snd (process_item lib cfg it st)) = appended st
        \<and> (\<exists>evs. effects (snd (process_item lib cfg it st)) = effects st @ evs
              \<and> (\<forall>r ok. SaveCall r ok \<notin> set evs) \<and> (\<forall>k. MarkProcessed k \<notin> set evs)))"
proof (rule conjI; rule impI)
  assume k: "k \<in> processed_links (snd (process_item lib cfg it st)) \<and> k \<notin> processed_links st"
  from process_item_shapes [of lib cfg it st]
  show "\<exists>dj fr rcd evs.
          item_key (fst it) = Inr k
        \<and> detail (snd it) = DetailOk dj
        \<and> fst (assemble_record cfg (snd it) (fst it) dj) = Inr fr
        \<and> (rcd = fr \<or> (\<exists>a. rcd = dict_set fr (ustr ''ai_analysis'') a))
        \<and> effects (snd (process_item lib cfg it st))
            = effects st @ [RandomSleep 3 6, DetailFetch k] @ evs
              @ [SaveCall (JObj rcd) (save (snd it) = Written), MarkProcessed k,
                 RandomSleep 15 30, RandomSleep 2 4]
        \<and> (\<forall>ev \<in> set evs. is_inner ev)
        \<and> appended (snd (process_item lib cfg it st))
            = appended st @ (if save (snd it) = Written then [JObj rcd] else [])"
  proof (rule disjE)
    assume "processed_links (snd (process_item lib cfg it st)) = processed_links st
      \<and> appended (snd (process_item lib cfg it st)) = appended st
      \<and> processed_item_count (snd (process_item lib cfg it st)) = processed_item_count st
      \<and> (\<exists>evs. effects (snd (process_item lib cfg it st)) = effects st @ evs
            \<and> (\<forall>ev \<in> set evs. is_inner ev
                  \<or> (\<exists>uk. ev = DetailFetch uk \<and> item_key (fst it) = Inr uk
                        \<and> uk \<notin> processed_links st)))"
    with k show ?thesis by simp
  next
    assume "\<exists>uk dj fr rcd evs.
        item_key (fst it) = Inr uk \<and> uk \<notin> processed_links st
      \<and> detail (snd it) = DetailOk dj
      \<and> fst (assemble_record cfg (snd it) (fst it) dj) = Inr fr
      \<and> (rcd = fr \<or> (\<exists>a. rcd = dict_set fr (ustr ''ai_analysis'') a))
      \<and> save (snd it) \<noteq> MakedirsFailed
      \<and> fst (process_item lib cfg it st) = NextItem
      \<and> processed_links (snd (process_item lib cfg it st)) = insert uk (processed_links st)
      \<and> processed_item_count (snd (process_item lib cfg it st)) = processed_item_count st + 1
      \<and> effects (snd (process_item lib cfg it st))
          = effects st @ [RandomSleep 3 6, DetailFetch uk] @ evs
            @ [SaveCall (JObj rcd) (save (snd it) = Written), MarkProcessed uk,
               RandomSleep 15 30, RandomSleep 2 4]
      \<and> (\<forall>ev \<in> set evs. is_inner ev)
      \<and> appended (snd (process_item lib cfg it st))
          = appended st @ (if save (snd it) = Written then [JObj rcd] else [])"
    then obtain uk dj fr rcd evs where
      a: "item_key (fst it) = Inr uk" "detail (snd it) = DetailOk dj"
      "fst (assemble_record cfg (snd it) (fst it) dj) = Inr fr"
      "rcd = fr \<or> (\<exists>a. rcd = dict_set fr (ustr ''ai_analysis'') a)"
      "processed_links (snd (process_item lib cfg it st)) = insert uk (processed_links st)"
      "effects (snd (process_item lib cfg it st))
          = effects st @ [RandomSleep 3 6, DetailFetch uk] @ evs
            @ [SaveCall (JObj rcd) (save (snd it) = Written), MarkProcessed uk,
               RandomSleep 15 30, RandomSleep 2 4]"
      "\<forall>ev \<in> set evs. is_inner ev"
      "appended (snd (process_item lib cfg it st))
          = appended st @ (if save (snd it) = Written then [JObj rcd] else [])"
      by blast
    have "k = uk" using k a(5) by auto
    then show ?thesis using a by blast
  qed
next
  assume e: "processed_links (snd (process_item lib cfg it st)) = processed_links st"
  from process_item_shapes [of lib cfg it st]
  show "appended (snd (process_item lib cfg it st)) = appended st
        \<and> (\<exists>evs. effects (snd (process_item lib cfg it st)) = effects st @ evs
              \<and> (\<forall>r ok. SaveCall r ok \<notin> set evs) \<and> (\<forall>k. MarkProcessed k \<notin> set evs))"
  proof (rule disjE)
    assume "processed_links (snd (process_item lib cfg it st)) = processed_links st
      \<and> appended (snd (process_item lib cfg it st)) = appended st
      \<and> processed_item_count (snd (process_item lib cfg it st)) = processed_item_count st
      \<and> (\<exists>evs. effects (snd (process_item lib cfg it st)) = effects st @ evs
            \<and> (\<forall>ev \<in> set evs. is_inner ev
                  \<or> (\<exists>uk. ev = DetailFetch uk \<and> item_key (fst it) = Inr uk
                        \<and> uk \<notin> processed_links st)))"
    then obtain evs where a: "appended (snd (process_item lib cfg it st)) = appended st"
      "effects (snd (process_item lib cfg it st)) = effects st @ evs"
      "\<forall>ev \<in> set evs. is_inner ev
          \<or> (\<exists>uk. ev = DetailFetch uk \<and> item_key (fst it) = Inr uk \<and> uk \<notin> processed_links st)"
      by blast
    have "(\<forall>r ok. SaveCall r ok \<notin> set evs) \<and> (\<forall>k. MarkProcessed k \<notin> set evs)"
      using a(3) by (auto dest: inner_not_commit)
    then show ?thesis using a(1,2) by blast
  next
    assume "\<exists>uk dj fr rcd evs.
        item_key (fst it) = Inr uk \<and> uk \<notin> processed_links st
      \<and> detail (snd it) = DetailOk dj
      \<and> fst (assemble_record cfg (snd it) (fst it) dj) = Inr fr
      \<and> (rcd = fr \<or> (\<exists>a. rcd = dict_set fr (ustr ''ai_analysis'') a))
      \<and> save (snd it) \<noteq> MakedirsFailed
      \<and> fst (process_item lib cfg it st) = NextItem
      \<and> processed_links (snd (process_item lib cfg it st)) = insert uk (processed_links st)
      \<and> processed_item_count (snd (process_item lib cfg it st)) = processed_item_count st + 1
      \<and> effects (snd (process_item lib cfg it st))
          = effects st @ [RandomSleep 3 6, DetailFetch uk] @ evs
            @ [SaveCall (JObj rcd) (save (snd it) = Written), MarkProcessed uk,
               RandomSleep 15 30, RandomSleep 2 4]
      \<and> (\<forall>ev \<in> set evs. is_inner ev)
      \<and> appended (snd (process_item lib cfg it st))
          = appended st @ (if save (snd it) = Written then [JObj rcd] else [])"
    then obtain uk where "uk \<notin> processed_links st"
      "processed_links (snd (process_item lib cfg it st)) = insert uk (processed_links st)"
      by blast
    with e show ?thesis by auto
  qed
qed

lemma example_processed:
  assumes "get_link_unique_key link \<notin> S" "s \<noteq> MakedirsFailed"
  shows "snd (process_item example_lib example_config
               (example_item link, example_env (DetailOk plain_payload) service_garbles s)
               (fresh_state S))
         = \<lparr>processed_links = insert (get_link_unique_key link) S, processed_item_count = 1,
            appended = (if s = Written
                        then [JObj (dict_set (example_record link) (ustr ''ai_analysis'')
                                      ai_error_marker)]
                        else []),
            effects = [RandomSleep 3 6, DetailFetch (get_link_unique_key link),
                       Attempt 0, Sleep 10, Attempt 1, Sleep 10, Attempt 2, Sleep 10, Attempt 3,
                       Sleep 10, Attempt 4,
                       SaveCall (JObj (dict_set (example_record link) (ustr ''ai_analysis'')
                                         ai_error_marker)) (s = Written),
                       MarkProcessed (get_link_unique_key link),
                       RandomSleep 15 30, RandomSleep 2 4]\<rparr>"
proof -
  let ?env = "example_env (DetailOk plain_payload) service_garbles s"
  let ?it = "(example_item link, ?env)"
  let ?k = "get_link_unique_key link"
  let ?rcd = "dict_set (example_record link) (ustr ''ai_analysis'') ai_error_marker"
  have k: "item_key (fst ?it) = Inr ?k"
    by (simp add: item_key_def example_item_def bind_err_def ustr_def)
  have h: "\<not> (debug_limit example_config > 0
             \<and> int (processed_item_count (fresh_state S)) \<ge> debug_limit example_config)"
    "title_sliceable (fst ?it)" "?k \<notin> processed_links (fresh_state S)"
    "detail (snd ?it) = DetailOk plain_payload"
    "block_detected example_lib plain_payload = Inr False"
    using assms(1)
    by (simp_all add: example_config_def fresh_state_def example_env_def example_item_key
        example_block_check)
  have an: "analyse example_lib example_config ?env (example_record link)
         = (Inr (?rcd, False),
            [Attempt 0, Sleep 10, Attempt 1, Sleep 10, Attempt 2, Sleep 10, Attempt 3,
             Sleep 10, Attempt 4])"
  proof (intro analyse_all_fail)
    show "truthy (ai_prompt_text example_config)" by (simp add: example_config_def ustr_def)
    show "\<forall>i < 5. \<exists>e. ai_attempt example_lib (ai_prompt_text example_config)
                          (ai_api ?env) i = Inl e"
      by (simp add: example_config_def example_env_def example_attempts)
  qed
  have sv: "save ?env = s" by (simp add: example_env_def)
  have d: "process_detail example_lib example_config ?env ?k (example_item link) plain_payload st
           = save_and_commit ?env ?k ?rcd
               (emit [Attempt 0, Sleep 10, Attempt 1, Sleep 10, Attempt 2, Sleep 10, Attempt 3,
                      Sleep 10, Attempt 4] st)" for st
    by (simp add: process_detail_def example_assembled an notification_effects_def)
  have c: "save_and_commit ?env ?k ?rcd st
           = emit [SaveCall (JObj ?rcd) (s = Written), MarkProcessed ?k, RandomSleep 15 30]
               (st\<lparr>processed_links := insert ?k (processed_links st),
                    processed_item_count := processed_item_count st + 1,
                    appended := appended st @ (if s = Written then [JObj ?rcd] else [])\<rparr>)" for st
    unfolding save_and_commit_def sv using assms(2) by (cases s) simp_all
  have p: "snd (process_item example_lib example_config ?it (fresh_state S))
           = emit [RandomSleep 2 4]
               (process_detail example_lib example_config ?env ?k (example_item link) plain_payload
                  (emit [RandomSleep 3 6, DetailFetch ?k] (fresh_state S)))"
    using process_item_new [OF h(1) k h(2,3,4,5)] by simp
  show ?thesis
    unfolding p d c by (simp add: emit_def fresh_state_def)
qed

theorem key_inserted_after_save_call_witness:
  "(\<exists>rcd evs.
      effects (snd (process_item example_lib example_config
                 (example_item (ustr ''https://www.goofish.com/item?id=2&spm=b''),
                  example_env (DetailOk plain_payload) service_garbles Written)
                 (fresh_state {})))
      = [RandomSleep 3 6, DetailFetch (ustr ''https://www.goofish.com/item?id=2'')] @ evs
        @ [SaveCall (JObj rcd) True, MarkProcessed (ustr ''https://www.goofish.com/item?id=2''),
           RandomSleep 15 30, RandomSleep 2 4]
      \<and> appended (snd (process_item example_lib example_config
                 (example_item (ustr ''https://www.goofish.com/item?id=2&spm=b''),
                  example_env (DetailOk plain_payload) service_garbles Written)
                 (fresh_state {})))
        = [JObj rcd])
   \<and> appended (snd (process_item example_lib example_config
                 (example_item (ustr ''https://www.goofish.com/item?id=2&spm=b''),
                  example_env DetailTimeout service_garbles Written)
                 (fresh_state {})))
     = []"
proof -
  let ?link = "ustr ''https://www.goofish.com/item?id=2&spm=b''"
  let ?k = "ustr ''https://www.goofish.com/item?id=2''"
  let ?it = "(example_item ?link, example_env (DetailOk plain_payload) service_garbles Written)"
  let ?it2 = "(example_item ?link, example_env DetailTimeout service_garbles Written)"
  have k: "get_link_unique_key ?link = ?k"
    by (simp add: get_link_unique_key_def py_split1_def ampersand_def ustr_def)
  have p: "processed_links (snd (process_item example_lib example_config ?it (fresh_state {})))
           = {?k}"
    by (subst example_processed) (simp_all add: k)
  have h: "?k \<in> processed_links (snd (process_item example_lib example_config ?it (fresh_state {})))
           \<and> ?k \<notin> processed_links (fresh_state {})"
    unfolding p by (simp add: fresh_state_def)
  have s: "save (snd ?it) = Written" "effects (fresh_state {}) = []"
    "appended (fresh_state {}) = []"
    by (simp_all add: example_env_def fresh_state_def)
  have t: "processed_links (snd (process_item example_lib example_config ?it2 (fresh_state {})))
           = processed_links (fresh_state {})"
    by (simp add: process_item_def example_item_key example_config_def fresh_state_def
        example_env_def Let_def)
  from key_inserted_after_save_call [of ?k example_lib example_config ?it "fresh_state {}"] h
  obtain rcd evs where
    "effects (snd (process_item example_lib example_config ?it (fresh_state {})))
       = effects (fresh_state {}) @ [RandomSleep 3 6, DetailFetch ?k] @ evs
         @ [SaveCall (JObj rcd) (save (snd ?it) = Written), MarkProcessed ?k,
            RandomSleep 15 30, RandomSleep 2 4]"
    "appended (snd (process_item example_lib example_config ?it (fresh_state {})))
       = appended (fresh_state {}) @ (if save (snd ?it) = Written then [JObj rcd] else [])"
    by blast
  then have a: "\<exists>rcd evs.
      effects (snd (process_item example_lib example_config ?it (fresh_state {})))
      = [RandomSleep 3 6, DetailFetch ?k] @ evs
        @ [SaveCall (JObj rcd) True, MarkProcessed ?k, RandomSleep 15 30, RandomSleep 2 4]
      \<and> appended (snd (process_item example_lib example_config ?it (fresh_state {}))) = [JObj rcd]"
    unfolding s by auto
  from key_inserted_after_save_call [of ?k example_lib example_config ?it2 "fresh_state {}"] t
  have b: "appended (snd (process_item example_lib example_config ?it2 (fresh_state {}))) = []"
    unfolding s by simp
  from a b show ?thesis by (rule conjI)
qed

theorem key_inserted_counterexample:
  "ustr ''https://www.goofish.com/item?id=2''
     \<in> processed_links (snd (process_item example_lib example_config
          (example_item (ustr ''https://www.goofish.com/item?id=2&spm=b''),
           example_env (DetailOk plain_payload) service_garbles WriteFailed)
          (fresh_state {})))
   \<and> appended (snd (process_item example_lib example_config
          (example_item (ustr ''https://www.goofish.com/item?id=2&spm=b''),
           example_env (DetailOk plain_payload) service_garbles WriteFailed)
          (fresh_state {})))
     = []
   \<and> SaveCall (JObj (dict_set (example_record (ustr ''https://www.goofish.com/item?id=2&spm=b''))
                       (ustr ''ai_analysis'') ai_error_marker)) False
     \<in> set (effects (snd (process_item example_lib example_config
          (example_item (ustr ''https://www.goofish.com/item?id=2&spm=b''),
           example_env (DetailOk plain_payload) service_garbles WriteFailed)
          (fresh_state {}))))"
proof -
  have k: "get_link_unique_key (ustr ''https://www.goofish.com/item?id=2&spm=b'')
           = ustr ''https://www.goofish.com/item?id=2''"
    by (simp add: get_link_unique_key_def py_split1_def ampersand_def ustr_def)
  show ?thesis
    by (subst example_processed, simp, simp)+ (simp add: k)
qed

section \<open>Properties of the deduplication across runs\<close>













end
